theory Spec2Isabelle
  imports Complex_Main
begin

section \<open>Floating-point values as the code sees them\<close>

text \<open>
  pandas and numpy compute on IEEE doubles: a division by zero does not raise, it yields an
  infinity or not-a-number, and every comparison with not-a-number is false.  The model keeps
  these special values as constructors and takes the finite values as exact reals (rounding
  error, overflow and the sign of zero are not modelled).
\<close>

datatype fval = Fin real | PInf | NInf | NaN

fun fneg :: "fval \<Rightarrow> fval" where
  "fneg (Fin x) = Fin (- x)"
| "fneg PInf = NInf"
| "fneg NInf = PInf"
| "fneg NaN = NaN"

fun fadd :: "fval \<Rightarrow> fval \<Rightarrow> fval" where
  "fadd (Fin x) (Fin y) = Fin (x + y)"
| "fadd (Fin x) PInf = PInf"
| "fadd (Fin x) NInf = NInf"
| "fadd PInf (Fin y) = PInf"
| "fadd NInf (Fin y) = NInf"
| "fadd PInf PInf = PInf"
| "fadd NInf NInf = NInf"
| "fadd PInf NInf = NaN"
| "fadd NInf PInf = NaN"
| "fadd NaN y = NaN"
| "fadd x NaN = NaN"

definition fsub :: "fval \<Rightarrow> fval \<Rightarrow> fval" where
  "fsub x y = fadd x (fneg y)"

definition inf_signed :: "real \<Rightarrow> fval" where
  "inf_signed s = (if 0 < s then PInf else if s < 0 then NInf else NaN)"

fun fmul :: "fval \<Rightarrow> fval \<Rightarrow> fval" where
  "fmul (Fin x) (Fin y) = Fin (x * y)"
| "fmul (Fin x) PInf = inf_signed x"
| "fmul (Fin x) NInf = inf_signed (- x)"
| "fmul PInf (Fin y) = inf_signed y"
| "fmul NInf (Fin y) = inf_signed (- y)"
| "fmul PInf PInf = PInf"
| "fmul NInf NInf = PInf"
| "fmul PInf NInf = NInf"
| "fmul NInf PInf = NInf"
| "fmul NaN y = NaN"
| "fmul x NaN = NaN"

fun fdiv :: "fval \<Rightarrow> fval \<Rightarrow> fval" where
  "fdiv (Fin x) (Fin y) = (if y \<noteq> 0 then Fin (x / y) else inf_signed x)"
| "fdiv (Fin x) PInf = Fin 0"
| "fdiv (Fin x) NInf = Fin 0"
| "fdiv PInf (Fin y) = (if 0 \<le> y then PInf else NInf)"
| "fdiv NInf (Fin y) = (if 0 \<le> y then NInf else PInf)"
| "fdiv PInf PInf = NaN"
| "fdiv NInf NInf = NaN"
| "fdiv PInf NInf = NaN"
| "fdiv NInf PInf = NaN"
| "fdiv NaN y = NaN"
| "fdiv x NaN = NaN"

fun fabs :: "fval \<Rightarrow> fval" where
  "fabs (Fin x) = Fin \<bar>x\<bar>"
| "fabs PInf = PInf"
| "fabs NInf = PInf"
| "fabs NaN = NaN"

fun flt :: "fval \<Rightarrow> fval \<Rightarrow> bool" where
  "flt (Fin x) (Fin y) = (x < y)"
| "flt (Fin x) PInf = True"
| "flt NInf (Fin y) = True"
| "flt NInf PInf = True"
| "flt x y = False"

definition fgt :: "fval \<Rightarrow> fval \<Rightarrow> bool" where
  "fgt x y = flt y x"

fun feq :: "fval \<Rightarrow> fval \<Rightarrow> bool" where
  "feq (Fin x) (Fin y) = (x = y)"
| "feq PInf PInf = True"
| "feq NInf NInf = True"
| "feq x y = False"

definition fle :: "fval \<Rightarrow> fval \<Rightarrow> bool" where
  "fle x y = (flt x y \<or> feq x y)"

definition fge :: "fval \<Rightarrow> fval \<Rightarrow> bool" where
  "fge x y = fle y x"

definition fne :: "fval \<Rightarrow> fval \<Rightarrow> bool" where
  "fne x y = (\<not> feq x y)"

definition isna :: "fval \<Rightarrow> bool" where
  "isna x = (x = NaN)"

text \<open>Python's two-argument \<open>max\<close> and \<open>min\<close> keep the first argument unless the second
  compares strictly beyond it, so a not-a-number in first place is returned.\<close>

definition py_max :: "fval \<Rightarrow> fval \<Rightarrow> fval" where
  "py_max a b = (if fgt b a then b else a)"

definition py_min :: "fval \<Rightarrow> fval \<Rightarrow> fval" where
  "py_min a b = (if flt b a then b else a)"

text \<open>\<open>round(x, n)\<close> rounds half to even at \<open>n\<close> decimals; infinities and not-a-number pass
  through.\<close>

definition round_half_even :: "real \<Rightarrow> int" where
  "round_half_even r =
     (let f = \<lfloor>r\<rfloor>; d = r - of_int f
      in if d < 1 / 2 then f else if 1 / 2 < d then f + 1 else if even f then f else f + 1)"

definition round_to :: "nat \<Rightarrow> real \<Rightarrow> real" where
  "round_to n x = of_int (round_half_even (x * 10 ^ n)) / 10 ^ n"

fun fround :: "nat \<Rightarrow> fval \<Rightarrow> fval" where
  "fround n (Fin x) = Fin (round_to n x)"
| "fround n PInf = PInf"
| "fround n NInf = NInf"
| "fround n NaN = NaN"

section \<open>pandas series operations\<close>

type_synonym series = "fval list"

text \<open>The \<open>n\<close> entries of a column that end at index \<open>i\<close>.\<close>

definition window :: "nat \<Rightarrow> nat \<Rightarrow> 'a list \<Rightarrow> 'a list" where
  "window n i xs = take n (drop (Suc i - n) xs)"

fun list_min :: "real list \<Rightarrow> real" where
  "list_min [] = 0"
| "list_min [x] = x"
| "list_min (x # y # ys) = min x (list_min (y # ys))"

fun list_max :: "real list \<Rightarrow> real" where
  "list_max [] = 0"
| "list_max [x] = x"
| "list_max (x # y # ys) = max x (list_max (y # ys))"

text \<open>\<open>col.rolling(window=n).min()\<close> and \<open>.max()\<close> on a column of finite numbers, and
  \<open>.mean()\<close> on any column: undefined until the window holds \<open>n\<close> defined values.\<close>

definition rolling_min :: "nat \<Rightarrow> real list \<Rightarrow> series" where
  "rolling_min n xs =
     map (\<lambda>i. if Suc i < n \<or> n = 0 then NaN else Fin (list_min (window n i xs))) [0..<length xs]"

definition rolling_max :: "nat \<Rightarrow> real list \<Rightarrow> series" where
  "rolling_max n xs =
     map (\<lambda>i. if Suc i < n \<or> n = 0 then NaN else Fin (list_max (window n i xs))) [0..<length xs]"

definition rolling_mean :: "nat \<Rightarrow> series \<Rightarrow> series" where
  "rolling_mean n xs =
     map (\<lambda>i. let w = window n i xs
              in if Suc i < n \<or> n = 0 \<or> NaN \<in> set w then NaN
                 else fdiv (foldl fadd (Fin 0) w) (Fin (real n)))
       [0..<length xs]"

text \<open>\<open>col.shift(k)\<close>: every value moves \<open>k\<close> rows down, the first \<open>k\<close> rows are undefined.\<close>

definition shift :: "nat \<Rightarrow> series \<Rightarrow> series" where
  "shift k xs = take (length xs) (replicate k NaN @ xs)"

text \<open>\<open>col.tail(n)\<close>: the last \<open>n\<close> entries.\<close>

definition tail :: "nat \<Rightarrow> 'a list \<Rightarrow> 'a list" where
  "tail n xs = drop (length xs - n) xs"

text \<open>\<open>col.nlargest(n)\<close> and \<open>col.nsmallest(n)\<close>: the \<open>n\<close> extreme values, ordered by value
  (largest first, respectively smallest first), equal values in order of appearance.\<close>

definition nlargest :: "nat \<Rightarrow> real list \<Rightarrow> real list" where
  "nlargest n xs = take n (sort_key (\<lambda>x. - x) xs)"

definition nsmallest :: "nat \<Rightarrow> real list \<Rightarrow> real list" where
  "nsmallest n xs = take n (sort_key (\<lambda>x. x) xs)"

text \<open>Python's \<open>sub in s\<close> on strings.\<close>

fun startswith :: "string \<Rightarrow> string \<Rightarrow> bool" where
  "startswith s [] = True"
| "startswith [] (c # cs) = False"
| "startswith (a # as) (c # cs) = (a = c \<and> startswith as cs)"

fun str_in :: "string \<Rightarrow> string \<Rightarrow> bool" where
  "str_in sub [] = (sub = [])"
| "str_in sub (a # as) = (startswith (a # as) sub \<or> str_in sub as)"

section \<open>The short-horizon analyzer (technical\_analyzer.py)\<close>

subsection \<open>Data\<close>

type_synonym time = int

text \<open>
  One row of the price frame handed to \<open>calculate_indicators\<close>: the OHLCV columns are finite
  numbers, \<open>bar_time\<close> is the row's index (its timestamp).  The columns that the function
  obtains from the third-party \<open>ta\<close> package (moving averages, MACD, RSI, Bollinger bands) are
  not code of this repository; they are carried as given values of the row, possibly undefined.
\<close>

record bar =
  bar_time :: time
  "open" :: real
  high :: real
  low :: real
  close :: real
  volume :: real
  sma_20 :: fval
  sma_50 :: fval
  ema_12 :: fval
  ema_26 :: fval
  macd :: fval
  macd_signal :: fval
  rsi :: fval
  bb_upper :: fval
  bb_middle :: fval
  bb_lower :: fval

text \<open>A row of the indicator table: the bar and the columns the analyzer computes itself.\<close>

record row = bar +
  bb_width :: fval
  volume_sma :: fval
  support :: fval
  resistance :: fval

datatype direction = BUY | SELL | STRONG_SELL | HOLD | NO_DATA

datatype strength_label = WEAK | MODERATE | MEDIUM | STRONG | VERY_STRONG | NONE

record signals =
  timestamp :: time
  price :: fval
  signal :: direction
  strength :: strength_label
  confidence :: int
  entry_price :: fval
  stop_loss :: fval
  take_profit :: fval
  risk_reward :: fval
  indicators :: "(string \<times> fval) list"
  patterns :: "(string \<times> string) list"
  analysis :: "(string \<times> string list) list"

subsection \<open>calculate\_indicators\<close>

text \<open>The columns computed in the repository: the band width, the 20-bar volume average and
  the 20-bar support and resistance.  (The Fibonacci and on-balance-volume columns are written
  to the frame but never read by the signal code; they are left out.)\<close>

definition calculate_indicators :: "bar list \<Rightarrow> row list" where
  "calculate_indicators df =
     (let vs = rolling_mean 20 (map (\<lambda>b. Fin (volume b)) df);
          sup = rolling_min 20 (map low df);
          res = rolling_max 20 (map high df)
      in map (\<lambda>i. bar.extend (df ! i)
                 (row.fields
                    (fmul (fdiv (fsub (bb_upper (df ! i)) (bb_lower (df ! i))) (bb_middle (df ! i)))
                       (Fin 100))
                    (vs ! i) (sup ! i) (res ! i)))
           [0..<length df])"

subsection \<open>detect\_patterns\<close>

definition head_shoulders_flag :: "real list \<Rightarrow> string" where
  "head_shoulders_flag highs =
     (let recent_highs = tail 20 highs
      in if 3 \<le> length recent_highs then
           (let peaks = nlargest 3 recent_highs
            in if length peaks = 3 \<and> peaks ! 0 < peaks ! 1 \<and> peaks ! 2 < peaks ! 1
               then ''BEARISH'' else ''NONE'')
         else ''NONE'')"

definition double_top_flag :: "real list \<Rightarrow> string" where
  "double_top_flag highs30 =
     (if 2 \<le> length highs30 then
        (let max_high = list_max highs30; second_max = nlargest 2 highs30 ! 1
         in if flt (fdiv (Fin \<bar>max_high - second_max\<bar>) (Fin max_high)) (Fin 0.02)
            then ''BEARISH'' else ''NONE'')
      else ''NONE'')"

definition double_bottom_flag :: "real list \<Rightarrow> string" where
  "double_bottom_flag lows30 =
     (if 2 \<le> length lows30 then
        (let min_low = list_min lows30; second_min = nsmallest 2 lows30 ! 1
         in if flt (fdiv (Fin \<bar>min_low - second_min\<bar>) (Fin min_low)) (Fin 0.02)
            then ''BULLISH'' else ''NONE'')
      else ''NONE'')"

text \<open>\<open>np.polyfit(range(len(ys)), ys, 1)[0]\<close>: the slope of the least-squares line through the
  points \<open>(0, ys ! 0), (1, ys ! 1), \<dots>\<close>.\<close>

definition polyfit_slope :: "real list \<Rightarrow> real" where
  "polyfit_slope ys =
     (let n = real (length ys);
          xs = map real [0..<length ys];
          sx = sum_list xs; sy = sum_list ys;
          sxx = sum_list (map (\<lambda>x. x * x) xs);
          sxy = sum_list (map (\<lambda>(x, y). x * y) (zip xs ys))
      in (n * sxy - sx * sy) / (n * sxx - sx * sx))"

definition triangle_flag :: "real list \<Rightarrow> real list \<Rightarrow> string" where
  "triangle_flag highs lows =
     (let high_trend = polyfit_slope (tail 20 highs);
          low_trend = polyfit_slope (tail 20 lows)
      in if \<bar>high_trend\<bar> < 0.1 \<and> 0.1 < low_trend then ''ASCENDING''
         else if high_trend < - 0.1 \<and> \<bar>low_trend\<bar> < 0.1 then ''DESCENDING''
         else if high_trend < - 0.1 \<and> 0.1 < low_trend then ''SYMMETRICAL''
         else ''NONE'')"

definition detect_patterns :: "row list \<Rightarrow> (string \<times> string) list" where
  "detect_patterns df =
     (if length df < 50 then
        [(''head_shoulders'', ''NONE''), (''double_top'', ''NONE''), (''double_bottom'', ''NONE''),
         (''triangle'', ''NONE''), (''flag'', ''NONE'')]
      else
        [(''head_shoulders'', head_shoulders_flag (map high df)),
         (''double_top'', double_top_flag (map high (tail 30 df))),
         (''double_bottom'', double_bottom_flag (map low (tail 30 df))),
         (''triangle'', triangle_flag (map high df) (map low df)),
         (''flag'', ''NONE'')])"

subsection \<open>generate\_signals\<close>

text \<open>\<open>empty_signal\<close> stamps the record with the wall clock (\<open>datetime.now()\<close>); the clock's
  reading is an explicit argument of the model.\<close>

definition empty_signal :: "time \<Rightarrow> signals" where
  "empty_signal now =
     \<lparr>timestamp = now, price = Fin 0, signal = NO_DATA, strength = NONE, confidence = 0,
      entry_price = Fin 0, stop_loss = Fin 0, take_profit = Fin 0, risk_reward = Fin 0,
      indicators = [], patterns = [], analysis = []\<rparr>"

definition trend_signals :: "row \<Rightarrow> row \<Rightarrow> string list" where
  "trend_signals latest prev =
     (if fgt (ema_12 latest) (ema_26 latest) \<and> fle (ema_12 prev) (ema_26 prev)
      then [''BULLISH_MA_CROSS'']
      else if flt (ema_12 latest) (ema_26 latest) \<and> fge (ema_12 prev) (ema_26 prev)
      then [''BEARISH_MA_CROSS''] else [])
     @ (if fgt (Fin (close latest)) (sma_20 latest) \<and> fgt (sma_20 latest) (sma_50 latest)
        then [''BULLISH_TREND'']
        else if flt (Fin (close latest)) (sma_20 latest) \<and> flt (sma_20 latest) (sma_50 latest)
        then [''BEARISH_TREND''] else [])"

definition macd_signals :: "row \<Rightarrow> row \<Rightarrow> string list" where
  "macd_signals latest prev =
     (if fgt (macd latest) (macd_signal latest) \<and> fle (macd prev) (macd_signal prev)
      then [''BULLISH_MACD'']
      else if flt (macd latest) (macd_signal latest) \<and> fge (macd prev) (macd_signal prev)
      then [''BEARISH_MACD''] else [])"

definition rsi_signals :: "row \<Rightarrow> string list" where
  "rsi_signals latest =
     (if flt (rsi latest) (Fin 30) then [''OVERSOLD'']
      else if fgt (rsi latest) (Fin 70) then [''OVERBOUGHT'']
      else if fle (Fin 40) (rsi latest) \<and> fle (rsi latest) (Fin 60) then [''NEUTRAL'']
      else [])"

definition bb_signals :: "row \<Rightarrow> string list" where
  "bb_signals latest =
     (if fgt (Fin (close latest)) (bb_upper latest) then [''BB_BREAKOUT_UP'']
      else if flt (Fin (close latest)) (bb_lower latest) then [''BB_BREAKOUT_DOWN'']
      else if flt (bb_width latest) (Fin 10) then [''BB_SQUEEZE'']
      else [])"

definition volume_signals :: "row \<Rightarrow> string list" where
  "volume_signals latest =
     (if fgt (Fin (volume latest)) (fmul (volume_sma latest) (Fin 1.5)) then [''HIGH_VOLUME'']
      else if flt (Fin (volume latest)) (fmul (volume_sma latest) (Fin 0.5)) then [''LOW_VOLUME'']
      else [])"

definition sr_signals :: "row \<Rightarrow> string list" where
  "sr_signals latest =
     (let price = Fin (close latest)
      in if flt (fdiv (fabs (fsub price (support latest))) price) (Fin 0.02) then [''AT_SUPPORT'']
         else if flt (fdiv (fabs (fsub price (resistance latest))) price) (Fin 0.02)
         then [''AT_RESISTANCE'']
         else [])"

text \<open>The tags that enter the count: trend, MACD, RSI and Bollinger tags, in this order.\<close>

definition counted_tags :: "row \<Rightarrow> row \<Rightarrow> string list" where
  "counted_tags latest prev =
     trend_signals latest prev @ macd_signals latest prev @ rsi_signals latest @ bb_signals latest"

definition bullish_count :: "row \<Rightarrow> row \<Rightarrow> nat" where
  "bullish_count latest prev =
     length (filter (\<lambda>s. str_in ''BULLISH'' s \<or> str_in ''OVERSOLD'' s) (counted_tags latest prev))"

definition bearish_count :: "row \<Rightarrow> row \<Rightarrow> nat" where
  "bearish_count latest prev =
     length (filter (\<lambda>s. str_in ''BEARISH'' s \<or> str_in ''OVERBOUGHT'' s) (counted_tags latest prev))"

definition generate_signals :: "time \<Rightarrow> row list \<Rightarrow> signals" where
  "generate_signals now df =
     (if length df < 50 then empty_signal now
      else
        (let latest = last df;
             prev = df ! (length df - 2);
             bull = bullish_count latest prev;
             bear = bearish_count latest prev;
             sig = (if bear < bull \<and> 2 \<le> bull then BUY
                    else if bull < bear \<and> 2 \<le> bear then SELL else HOLD);
             conf = (if bear < bull \<and> 2 \<le> bull then min (int bull * 20) 100
                     else if bull < bear \<and> 2 \<le> bear then min (int bear * 20) 100 else 50);
             str = (if 80 \<le> conf then STRONG else if 60 \<le> conf then MEDIUM else WEAK);
             entry = (if sig = BUY \<or> sig = SELL then Fin (close latest) else Fin 0);
             stop = (if sig = BUY then py_max (support latest) (Fin (close latest * 0.95))
                     else if sig = SELL then py_min (resistance latest) (Fin (close latest * 1.05))
                     else Fin 0);
             take = (if sig = BUY then py_min (resistance latest) (Fin (close latest * 1.1))
                     else if sig = SELL then py_max (support latest) (Fin (close latest * 0.9))
                     else Fin 0);
             rr = (if fne stop (Fin 0) then
                     (let risk = fabs (fsub entry stop); reward = fabs (fsub take entry)
                      in if fgt risk (Fin 0) then fround 2 (fdiv reward risk) else Fin 0)
                   else Fin 0)
         in \<lparr>timestamp = bar_time latest, price = Fin (close latest), signal = sig,
             strength = str, confidence = conf,
             entry_price = entry, stop_loss = stop, take_profit = take, risk_reward = rr,
             indicators =
               [(''rsi'', fround 2 (rsi latest)), (''macd'', fround 4 (macd latest)),
                (''sma_20'', fround 2 (sma_20 latest)), (''sma_50'', fround 2 (sma_50 latest)),
                (''bb_width'', fround 2 (bb_width latest)),
                (''volume_ratio'', fround 2 (fdiv (Fin (volume latest)) (volume_sma latest)))],
             patterns = detect_patterns df,
             analysis =
               [(''trend'', trend_signals latest prev),
                (''momentum'', macd_signals latest prev @ rsi_signals latest),
                (''volatility'', bb_signals latest),
                (''volume'', volume_signals latest),
                (''support_resistance'', sr_signals latest)]\<rparr>))"

section \<open>The long-horizon bot (trading\_bot.py, config.py)\<close>

subsection \<open>Configuration\<close>

definition SMA_SHORT_PERIOD :: nat where "SMA_SHORT_PERIOD = 20"
definition SMA_LONG_PERIOD :: nat where "SMA_LONG_PERIOD = 50"
definition MIN_VOLUME_THRESHOLD :: real where "MIN_VOLUME_THRESHOLD = 1000000"
definition MIN_PRICE_CHANGE :: real where "MIN_PRICE_CHANGE = 0.03"
definition STOP_LOSS_PERCENTAGE :: real where "STOP_LOSS_PERCENTAGE = 0.15"
definition TAKE_PROFIT_PERCENTAGE :: real where "TAKE_PROFIT_PERCENTAGE = 0.25"
definition RSI_OVERBOUGHT_THRESHOLD :: real where "RSI_OVERBOUGHT_THRESHOLD = 80"
definition RSI_OVERSOLD_THRESHOLD :: real where "RSI_OVERSOLD_THRESHOLD = 20"
definition RSI_PERIOD :: nat where "RSI_PERIOD = 21"
definition HIGH_VOLUME_SELL_MULTIPLIER :: real where "HIGH_VOLUME_SELL_MULTIPLIER = 3.0"

subsection \<open>Data\<close>

record stock_bar =
  Date :: time
  Open :: real
  High :: real
  Low :: real
  Close :: real
  Volume :: real

text \<open>A row of the frame that \<open>generate_enhanced_signals\<close> returns.\<close>

record signal_row = stock_bar +
  SMA_short :: fval
  SMA_long :: fval
  RSI :: fval
  Volume_MA :: fval
  Price_Change_Pct :: fval
  Recent_High :: fval
  Recent_Low :: fval
  Signal :: direction
  Position :: int
  Signal_Reason :: string
  Signal_Strength :: strength_label

datatype py_error = IndexError

text \<open>The dictionary \<open>signal_info\<close>; a key that is also a column of the short-horizon frame
  or a key of its signal record carries a prime.\<close>

record signal_info =
  symbol :: string
  date :: time
  signal' :: direction
  signal_reason :: string
  current_price :: fval
  previous_close :: fval
  price_change :: fval
  volume' :: int
  volume_ratio :: fval
  sma_short :: fval
  sma_long :: fval
  rsi' :: fval
  stop_loss_price :: fval
  take_profit_price :: fval
  recent_high :: fval
  recent_low :: fval
  valid :: bool
  strength' :: strength_label

subsection \<open>calculate\_rsi\<close>

text \<open>\<open>col.diff()\<close> and \<open>col.pct_change()\<close> on a column of finite numbers: the first row is
  undefined; the relative change is \<open>x\<^sub>i / x\<^sub>i\<^sub>-\<^sub>1 - 1\<close> in floating point, so a zero
  predecessor gives an infinity or not-a-number.\<close>

definition diff :: "real list \<Rightarrow> series" where
  "diff xs = map (\<lambda>i. if i = 0 then NaN else Fin (xs ! i - xs ! (i - 1))) [0..<length xs]"

definition pct_change :: "real list \<Rightarrow> series" where
  "pct_change xs =
     map (\<lambda>i. if i = 0 then NaN else fsub (fdiv (Fin (xs ! i)) (Fin (xs ! (i - 1)))) (Fin 1))
       [0..<length xs]"

text \<open>\<open>col.where(cond, 0)\<close>: keep the entries that satisfy the condition, put 0 elsewhere.\<close>

definition where_else_zero :: "(fval \<Rightarrow> bool) \<Rightarrow> series \<Rightarrow> series" where
  "where_else_zero cond xs = map (\<lambda>x. if cond x then x else Fin 0) xs"

definition avg_gain :: "stock_bar list \<Rightarrow> nat \<Rightarrow> series" where
  "avg_gain data period =
     rolling_mean period (where_else_zero (\<lambda>d. fgt d (Fin 0)) (diff (map Close data)))"

definition avg_loss :: "stock_bar list \<Rightarrow> nat \<Rightarrow> series" where
  "avg_loss data period =
     rolling_mean period (map fneg (where_else_zero (\<lambda>d. flt d (Fin 0)) (diff (map Close data))))"

definition calculate_rsi :: "stock_bar list \<Rightarrow> nat \<Rightarrow> series" where
  "calculate_rsi data period =
     map (\<lambda>i. let rs = fdiv (avg_gain data period ! i) (avg_loss data period ! i)
              in fsub (Fin 100) (fdiv (Fin 100) (fadd (Fin 1) rs)))
       [0..<length data]"

subsection \<open>calculate\_technical\_indicators\<close>

definition SMA_short_col :: "stock_bar list \<Rightarrow> series" where
  "SMA_short_col data = rolling_mean SMA_SHORT_PERIOD (map (\<lambda>b. Fin (Close b)) data)"

definition SMA_long_col :: "stock_bar list \<Rightarrow> series" where
  "SMA_long_col data = rolling_mean SMA_LONG_PERIOD (map (\<lambda>b. Fin (Close b)) data)"

definition RSI_col :: "stock_bar list \<Rightarrow> series" where
  "RSI_col data = calculate_rsi data RSI_PERIOD"

definition Volume_MA_col :: "stock_bar list \<Rightarrow> series" where
  "Volume_MA_col data = rolling_mean 20 (map (\<lambda>b. Fin (Volume b)) data)"

definition Price_Change_Pct_col :: "stock_bar list \<Rightarrow> series" where
  "Price_Change_Pct_col data = map (\<lambda>x. fmul x (Fin 100)) (pct_change (map Close data))"

definition Recent_High_col :: "stock_bar list \<Rightarrow> series" where
  "Recent_High_col data = rolling_max 10 (map High data)"

definition Recent_Low_col :: "stock_bar list \<Rightarrow> series" where
  "Recent_Low_col data = rolling_min 10 (map Low data)"

subsection \<open>generate\_enhanced\_signals\<close>

text \<open>The frame's boolean masks, read at row \<open>i\<close>.\<close>

definition volume_ratio_col :: "stock_bar list \<Rightarrow> series" where
  "volume_ratio_col data =
     map (\<lambda>i. fdiv (Fin (Volume (data ! i))) (Volume_MA_col data ! i)) [0..<length data]"

definition buy_sma_cross :: "stock_bar list \<Rightarrow> nat \<Rightarrow> bool" where
  "buy_sma_cross data i =
     (fgt (SMA_short_col data ! i) (SMA_long_col data ! i) \<and>
      fle (shift 1 (SMA_short_col data) ! i) (shift 1 (SMA_long_col data) ! i))"

definition buy_rsi_ok :: "stock_bar list \<Rightarrow> nat \<Rightarrow> bool" where
  "buy_rsi_ok data i = flt (RSI_col data ! i) (Fin RSI_OVERBOUGHT_THRESHOLD)"

definition rsi_oversold_recovery :: "stock_bar list \<Rightarrow> nat \<Rightarrow> bool" where
  "rsi_oversold_recovery data i =
     (fgt (RSI_col data ! i) (Fin RSI_OVERSOLD_THRESHOLD) \<and>
      fle (shift 1 (RSI_col data) ! i) (Fin RSI_OVERSOLD_THRESHOLD))"

definition strong_uptrend :: "stock_bar list \<Rightarrow> nat \<Rightarrow> bool" where
  "strong_uptrend data i =
     (fgt (SMA_short_col data ! i) (SMA_long_col data ! i) \<and>
      fgt (Fin (Close (data ! i))) (SMA_short_col data ! i) \<and>
      fgt (RSI_col data ! i) (Fin 50) \<and>
      flt (RSI_col data ! i) (Fin RSI_OVERBOUGHT_THRESHOLD))"

definition price_momentum :: "stock_bar list \<Rightarrow> nat \<Rightarrow> bool" where
  "price_momentum data i =
     fgt (Fin (Close (data ! i))) (shift 5 (map (\<lambda>b. Fin (Close b)) data) ! i)"

definition buy_condition :: "stock_bar list \<Rightarrow> nat \<Rightarrow> bool" where
  "buy_condition data i =
     (((buy_sma_cross data i \<and> buy_rsi_ok data i) \<or>
       (rsi_oversold_recovery data i \<and> fgt (SMA_short_col data ! i) (SMA_long_col data ! i))) \<or>
      (strong_uptrend data i \<and> price_momentum data i))"

definition sell_sma_cross :: "stock_bar list \<Rightarrow> nat \<Rightarrow> bool" where
  "sell_sma_cross data i =
     (flt (SMA_short_col data ! i) (SMA_long_col data ! i) \<and>
      fge (shift 1 (SMA_short_col data) ! i) (shift 1 (SMA_long_col data) ! i))"

definition sma_cross_confirmed :: "stock_bar list \<Rightarrow> nat \<Rightarrow> bool" where
  "sma_cross_confirmed data i =
     (sell_sma_cross data i \<and>
      fge (shift 2 (SMA_short_col data) ! i) (shift 2 (SMA_long_col data) ! i))"

definition sell_rsi_overbought :: "stock_bar list \<Rightarrow> nat \<Rightarrow> bool" where
  "sell_rsi_overbought data i = fgt (RSI_col data ! i) (Fin RSI_OVERBOUGHT_THRESHOLD)"

definition sell_high_volume :: "stock_bar list \<Rightarrow> nat \<Rightarrow> bool" where
  "sell_high_volume data i =
     (fgt (volume_ratio_col data ! i) (Fin HIGH_VOLUME_SELL_MULTIPLIER) \<and>
      flt (Price_Change_Pct_col data ! i) (Fin (- 5)))"

definition price_trend :: "stock_bar list \<Rightarrow> nat \<Rightarrow> bool" where
  "price_trend data i =
     (let m = rolling_mean 10 (map (\<lambda>b. Fin (Close b)) data) in fgt (m ! i) (shift 10 m ! i))"

definition rsi_trend :: "stock_bar list \<Rightarrow> nat \<Rightarrow> bool" where
  "rsi_trend data i = flt (RSI_col data ! i) (shift 10 (RSI_col data) ! i)"

definition sell_divergence :: "stock_bar list \<Rightarrow> nat \<Rightarrow> bool" where
  "sell_divergence data i =
     (price_trend data i \<and> rsi_trend data i \<and> fgt (RSI_col data ! i) (Fin 70))"

definition strong_sell_multiple :: "stock_bar list \<Rightarrow> nat \<Rightarrow> bool" where
  "strong_sell_multiple data i = (sma_cross_confirmed data i \<and> sell_rsi_overbought data i)"

definition strong_sell_extreme :: "stock_bar list \<Rightarrow> nat \<Rightarrow> bool" where
  "strong_sell_extreme data i =
     (fgt (RSI_col data ! i) (Fin 85) \<and>
      fgt (volume_ratio_col data ! i) (Fin HIGH_VOLUME_SELL_MULTIPLIER))"

definition strong_sell_crash :: "stock_bar list \<Rightarrow> nat \<Rightarrow> bool" where
  "strong_sell_crash data i =
     (flt (Price_Change_Pct_col data ! i) (Fin (- 10)) \<and>
      fgt (volume_ratio_col data ! i) (Fin HIGH_VOLUME_SELL_MULTIPLIER))"

definition regular_sell :: "stock_bar list \<Rightarrow> nat \<Rightarrow> bool" where
  "regular_sell data i =
     ((sma_cross_confirmed data i \<or> sell_rsi_overbought data i \<or> sell_high_volume data i \<or>
       sell_divergence data i) \<and>
      \<not> (strong_sell_multiple data i \<or> strong_sell_extreme data i \<or> strong_sell_crash data i))"

definition strong_sell :: "stock_bar list \<Rightarrow> nat \<Rightarrow> bool" where
  "strong_sell data i =
     (strong_sell_multiple data i \<or> strong_sell_extreme data i \<or> strong_sell_crash data i)"

text \<open>\<open>data.loc[mask, column] = v\<close>, read at one row: the new value where the mask holds, the
  old one elsewhere.  Later assignments are applied outermost.\<close>

definition loc_set :: "bool \<Rightarrow> 'a \<Rightarrow> 'a \<Rightarrow> 'a" where
  "loc_set cond v old = (if cond then v else old)"

definition Signal_at :: "stock_bar list \<Rightarrow> nat \<Rightarrow> direction" where
  "Signal_at data i =
     loc_set (strong_sell data i) STRONG_SELL
       (loc_set (regular_sell data i) SELL
          (loc_set (buy_condition data i) BUY HOLD))"

definition Position_at :: "stock_bar list \<Rightarrow> nat \<Rightarrow> int" where
  "Position_at data i =
     loc_set (strong_sell data i) (- 2)
       (loc_set (regular_sell data i) (- 1)
          (loc_set (buy_condition data i) 1 0))"

definition Signal_Reason_at :: "stock_bar list \<Rightarrow> nat \<Rightarrow> string" where
  "Signal_Reason_at data i =
     loc_set (strong_sell_crash data i) ''Major Price Crash (-10%+)''
    (loc_set (strong_sell_extreme data i) ''Extreme Overbought (85+)''
    (loc_set (strong_sell_multiple data i) ''Multiple Confirmed Bearish Signals''
    (loc_set (sell_divergence data i) ''Long-term Bearish Divergence''
    (loc_set (sell_high_volume data i) ''Major High Volume Sell-off''
    (loc_set (sell_rsi_overbought data i) ''RSI Extremely Overbought (80+)''
    (loc_set (sma_cross_confirmed data i) ''Confirmed SMA Bearish Crossover''
    (loc_set (strong_uptrend data i \<and> price_momentum data i) ''Strong Uptrend Continuation''
    (loc_set (rsi_oversold_recovery data i \<and> fgt (SMA_short_col data ! i) (SMA_long_col data ! i))
       ''RSI Oversold Recovery''
    (loc_set (buy_sma_cross data i \<and> buy_rsi_ok data i) ''Long-term SMA Crossover''
       ''No Signal'')))))))))"

definition generate_enhanced_signals :: "stock_bar list \<Rightarrow> signal_row list" where
  "generate_enhanced_signals data =
     map (\<lambda>i. stock_bar.extend (data ! i)
              (signal_row.fields (SMA_short_col data ! i) (SMA_long_col data ! i)
                 (RSI_col data ! i) (Volume_MA_col data ! i) (Price_Change_Pct_col data ! i)
                 (Recent_High_col data ! i) (Recent_Low_col data ! i)
                 (Signal_at data i) (Position_at data i) (Signal_Reason_at data i) WEAK))
       [0..<length data]"

subsection \<open>validate\_signal\<close>

text \<open>\<open>int(x)\<close> truncates towards zero.\<close>

definition py_int :: "real \<Rightarrow> int" where
  "py_int x = (if 0 \<le> x then \<lfloor>x\<rfloor> else \<lceil>x\<rceil>)"

definition validate_signal :: "signal_row list \<Rightarrow> string \<Rightarrow> py_error + signal_info" where
  "validate_signal data symb =
     (if data = [] then Inl IndexError
      else
        (let latest_data = last data;
             previous_data = (if 1 < length data then data ! (length data - 2) else latest_data);
             current_price = Fin (Close latest_data);
             stop_loss_price = fmul current_price (Fin (1 - STOP_LOSS_PERCENTAGE));
             take_profit_price = fmul current_price (Fin (1 + TAKE_PROFIT_PERCENTAGE));
             pc = fround 2
                    (fmul (fdiv (fsub (Fin (Close latest_data)) (Fin (Close previous_data)))
                             (Fin (Close previous_data)))
                       (Fin 100));
             volume_valid = (MIN_VOLUME_THRESHOLD \<le> Volume latest_data);
             price_change_significant = fge (fabs pc) (Fin (MIN_PRICE_CHANGE * 100));
             sma_valid = (\<not> (isna (SMA_short latest_data) \<or> isna (SMA_long latest_data)));
             v = (volume_valid \<and> sma_valid)
         in Inr
           \<lparr>symbol = symb, date = Date latest_data, signal' = Signal latest_data,
            signal_reason = Signal_Reason latest_data,
            current_price = fround 2 (Fin (Close latest_data)),
            previous_close = fround 2 (Fin (Close previous_data)),
            price_change = pc,
            volume' = py_int (Volume latest_data),
            volume_ratio =
              (if \<not> isna (Volume_MA latest_data)
               then fround 2 (fdiv (Fin (Volume latest_data)) (Volume_MA latest_data))
               else Fin 1.0),
            sma_short = fround 2 (SMA_short latest_data),
            sma_long = fround 2 (SMA_long latest_data),
            rsi' = (if \<not> isna (RSI latest_data) then fround 2 (RSI latest_data) else Fin 50),
            stop_loss_price = fround 2 stop_loss_price,
            take_profit_price = fround 2 take_profit_price,
            recent_high = fround 2 (Recent_High latest_data),
            recent_low = fround 2 (Recent_Low latest_data),
            valid = v,
            strength' =
              (if Signal latest_data = STRONG_SELL then VERY_STRONG
               else if v \<and> price_change_significant then STRONG
               else if v then MODERATE
               else WEAK)\<rparr>))"

section \<open>Example frames\<close>

text \<open>
  Fifty bars of a flat market at 100 followed by a dip to 99 and a jump to 102, and the
  mirrored series with a rise to 101 and a fall to 98.  The library columns hold what the \<open>ta\<close>
  package reports for these closes (to four decimals); columns whose window is not yet full are
  undefined.  The high of the last bar of the first series is a parameter.
\<close>

definition flat_bar :: "nat \<Rightarrow> bar" where
  "flat_bar i =
     \<lparr>bar_time = int i, open = 100, high = 101, low = 99, close = 100, volume = 1000,
      sma_20 = (if i < 19 then NaN else Fin 100), sma_50 = (if i < 49 then NaN else Fin 100),
      ema_12 = (if i < 11 then NaN else Fin 100), ema_26 = (if i < 25 then NaN else Fin 100),
      macd = (if i < 33 then NaN else Fin 0), macd_signal = (if i < 33 then NaN else Fin 0),
      rsi = (if i < 13 then NaN else Fin 100),
      bb_upper = (if i < 19 then NaN else Fin 100), bb_middle = (if i < 19 then NaN else Fin 100),
      bb_lower = (if i < 19 then NaN else Fin 100)\<rparr>"

definition dip_bar :: bar where
  "dip_bar =
     \<lparr>bar_time = 48, open = 100, high = 100.5, low = 98.5, close = 99, volume = 1200,
      sma_20 = Fin 99.95, sma_50 = NaN, ema_12 = Fin 99.8462, ema_26 = Fin 99.9259,
      macd = Fin (- 0.0638), macd_signal = Fin (- 0.0160), rsi = Fin 0,
      bb_upper = Fin 100.3859, bb_middle = Fin 99.95, bb_lower = Fin 99.5141\<rparr>"

definition jump_bar :: "real \<Rightarrow> bar" where
  "jump_bar h =
     \<lparr>bar_time = 49, open = 99, high = h, low = 99, close = 102, volume = 1500,
      sma_20 = Fin 100.05, sma_50 = Fin 100.02, ema_12 = Fin 100.1775, ema_26 = Fin 100.0796,
      macd = Fin 0.0911, macd_signal = Fin 0.0068, rsi = Fin 76.3636,
      bb_upper = Fin 101.0450, bb_middle = Fin 100.05, bb_lower = Fin 99.0550\<rparr>"

definition buy_frame :: "real \<Rightarrow> bar list" where
  "buy_frame h = map flat_bar [0..<48] @ [dip_bar, jump_bar h]"

definition rise_bar :: bar where
  "rise_bar =
     \<lparr>bar_time = 48, open = 100, high = 101.5, low = 99.5, close = 101, volume = 1200,
      sma_20 = Fin 100.05, sma_50 = NaN, ema_12 = Fin 100.1538, ema_26 = Fin 100.0741,
      macd = Fin 0.0638, macd_signal = Fin 0.0160, rsi = Fin 100,
      bb_upper = Fin 100.4859, bb_middle = Fin 100.05, bb_lower = Fin 99.6141\<rparr>"

definition fall_bar :: bar where
  "fall_bar =
     \<lparr>bar_time = 49, open = 101, high = 101, low = 97.5, close = 98, volume = 1500,
      sma_20 = Fin 99.95, sma_50 = Fin 99.98, ema_12 = Fin 99.8225, ema_26 = Fin 99.9204,
      macd = Fin (- 0.0911), macd_signal = Fin (- 0.0068), rsi = Fin 23.6364,
      bb_upper = Fin 100.9450, bb_middle = Fin 99.95, bb_lower = Fin 98.9550\<rparr>"

definition sell_frame :: "bar list" where
  "sell_frame = map flat_bar [0..<48] @ [rise_bar, fall_bar]"

text \<open>
  A flat 50-bar series whose highs in the last 20 bars peak at 105, 110 and 104 (rows 35, 40
  and 45): a left shoulder, a head and a right shoulder.
\<close>

definition peak_bar :: "nat \<Rightarrow> bar" where
  "peak_bar i =
     (flat_bar i)\<lparr>high := (if i = 35 then 105 else if i = 40 then 110
                          else if i = 45 then 104 else 101)\<rparr>"

definition peaks_frame :: "bar list" where
  "peaks_frame = map peak_bar [0..<50]"

text \<open>
  The head-and-shoulders rule as the specification words it, for comparison with the code: take
  the three largest highs of the last 20 bars, order them by time, and flag \<open>BEARISH\<close> when the
  middle one exceeds both of its neighbours.
\<close>

definition head_shoulders_by_time :: "real list \<Rightarrow> string" where
  "head_shoulders_by_time highs =
     (let recent = tail 20 highs;
          largest = take 3 (sort_key (\<lambda>p. - snd p) (zip [0..<length recent] recent));
          by_time = sort_key fst largest
      in if length by_time = 3 \<and> snd (by_time ! 0) < snd (by_time ! 1) \<and>
            snd (by_time ! 2) < snd (by_time ! 1)
         then ''BEARISH'' else ''NONE'')"

text \<open>
  Daily bars for the long-horizon bot: 49 flat days at 1000 on a volume of two million, then a
  last day closing at \<open>c\<close> on a volume of \<open>v\<close>.
\<close>

definition flat_stock_bar :: "nat \<Rightarrow> stock_bar" where
  "flat_stock_bar i =
     \<lparr>Date = int i, Open = 1000, High = 1010, Low = 990, Close = 1000, Volume = 2000000\<rparr>"

definition last_stock_bar :: "real \<Rightarrow> real \<Rightarrow> stock_bar" where
  "last_stock_bar c v =
     \<lparr>Date = 49, Open = 1000, High = max 1010 c, Low = min 990 c, Close = c, Volume = v\<rparr>"

definition stock_frame :: "real \<Rightarrow> real \<Rightarrow> stock_bar list" where
  "stock_frame c v = map flat_stock_bar [0..<49] @ [last_stock_bar c v]"

section \<open>Properties\<close>

subsection \<open>Floating-point and list helpers\<close>

lemma fgt_Fin [simp]: "fgt (Fin x) (Fin y) = (y < x)" by (simp add: fgt_def)
lemma fle_Fin [simp]: "fle (Fin x) (Fin y) = (x \<le> y)" by (auto simp: fle_def)
lemma fge_Fin [simp]: "fge (Fin x) (Fin y) = (y \<le> x)" by (simp add: fge_def)
lemma fne_Fin [simp]: "fne (Fin x) (Fin y) = (x \<noteq> y)" by (simp add: fne_def)
lemma fsub_Fin [simp]: "fsub (Fin x) (Fin y) = Fin (x - y)" by (simp add: fsub_def)
lemma py_max_Fin [simp]: "py_max (Fin a) (Fin b) = Fin (max a b)" by (simp add: py_max_def max_def)
lemma py_min_Fin [simp]: "py_min (Fin a) (Fin b) = Fin (min a b)" by (simp add: py_min_def min_def)

lemma length_calculate_indicators [simp]: "length (calculate_indicators df) = length df"
  by (simp add: calculate_indicators_def Let_def)

subsection \<open>Signal fusion, short series and risk/reward\<close>

lemma short_series: "length df < 50 \<Longrightarrow> generate_signals now df = empty_signal now"
  by (simp add: generate_signals_def)

text \<open>
  Claim C2.  For every frame shorter than the long trend window (50 rows), \<open>generate_signals\<close>
  returns direction \<open>NO_DATA\<close>, confidence 0, and entry price, stop-loss, take-profit and
  risk/reward all 0; no indicator is read.
\<close>
theorem short_series_no_data:
  assumes "length df < 50"
  shows "signal (generate_signals now df) = NO_DATA \<and>
         confidence (generate_signals now df) = 0 \<and>
         entry_price (generate_signals now df) = Fin 0 \<and>
         stop_loss (generate_signals now df) = Fin 0 \<and>
         take_profit (generate_signals now df) = Fin 0 \<and>
         risk_reward (generate_signals now df) = Fin 0"
  using assms by (simp add: generate_signals_def empty_signal_def)

lemma uncounted_tags:
  "filter (\<lambda>s. str_in ''BULLISH'' s \<or> str_in ''OVERSOLD'' s) (bb_signals L) = []"
  "filter (\<lambda>s. str_in ''BEARISH'' s \<or> str_in ''OVERBOUGHT'' s) (bb_signals L) = []"
  "filter (\<lambda>s. str_in ''BULLISH'' s \<or> str_in ''OVERSOLD'' s) (volume_signals L) = []"
  "filter (\<lambda>s. str_in ''BEARISH'' s \<or> str_in ''OVERBOUGHT'' s) (volume_signals L) = []"
  "filter (\<lambda>s. str_in ''BULLISH'' s \<or> str_in ''OVERSOLD'' s) (sr_signals L) = []"
  "filter (\<lambda>s. str_in ''BEARISH'' s \<or> str_in ''OVERBOUGHT'' s) (sr_signals L) = []"
  by (simp_all add: bb_signals_def volume_signals_def sr_signals_def Let_def)

lemma analysis_tags:
  "50 \<le> length df \<Longrightarrow>
   concat (map snd (analysis (generate_signals now df))) =
     counted_tags (last df) (df ! (length df - 2)) @ volume_signals (last df) @ sr_signals (last df)"
  by (simp add: generate_signals_def Let_def counted_tags_def)

text \<open>
  Claim C1.  For every frame of at least 50 rows the direction is decided by counting tags:
  with \<open>b\<close> the number of tags of the result that contain \<open>BULLISH\<close> or \<open>OVERSOLD\<close> and \<open>r\<close> the
  number that contain \<open>BEARISH\<close> or \<open>OVERBOUGHT\<close> (these are the two counts the code takes over
  the trend, MACD, RSI and band tags), \<open>b > r\<close> and \<open>b \<ge> 2\<close> give \<open>BUY\<close> with confidence
  \<open>min (20 b) 100\<close>, \<open>r > b\<close> and \<open>r \<ge> 2\<close> give \<open>SELL\<close> with confidence \<open>min (20 r) 100\<close>, and
  every other case, equal counts included, gives \<open>HOLD\<close> with confidence 50.
\<close>
theorem fusion_counts_evidence:
  assumes "50 \<le> length df"
  shows "(let s = generate_signals now df;
              tags = concat (map snd (analysis s));
              b = length (filter (\<lambda>t. str_in ''BULLISH'' t \<or> str_in ''OVERSOLD'' t) tags);
              r = length (filter (\<lambda>t. str_in ''BEARISH'' t \<or> str_in ''OVERBOUGHT'' t) tags)
          in b = bullish_count (last df) (df ! (length df - 2)) \<and>
             r = bearish_count (last df) (df ! (length df - 2)) \<and>
             (if r < b \<and> 2 \<le> b then signal s = BUY \<and> confidence s = min (int b * 20) 100
              else if b < r \<and> 2 \<le> r then signal s = SELL \<and> confidence s = min (int r * 20) 100
              else signal s = HOLD \<and> confidence s = 50))"
proof -
  have b: "length (filter (\<lambda>t. str_in ''BULLISH'' t \<or> str_in ''OVERSOLD'' t)
             (concat (map snd (analysis (generate_signals now df))))) =
           bullish_count (last df) (df ! (length df - 2))"
    by (simp add: analysis_tags [OF assms] uncounted_tags bullish_count_def)
  have r: "length (filter (\<lambda>t. str_in ''BEARISH'' t \<or> str_in ''OVERBOUGHT'' t)
             (concat (map snd (analysis (generate_signals now df))))) =
           bearish_count (last df) (df ! (length df - 2))"
    by (simp add: analysis_tags [OF assms] uncounted_tags bearish_count_def)
  have d: "(if bearish_count (last df) (df ! (length df - 2)) <
               bullish_count (last df) (df ! (length df - 2)) \<and>
               2 \<le> bullish_count (last df) (df ! (length df - 2))
            then signal (generate_signals now df) = BUY \<and>
                 confidence (generate_signals now df) =
                   min (int (bullish_count (last df) (df ! (length df - 2))) * 20) 100
            else if bullish_count (last df) (df ! (length df - 2)) <
                    bearish_count (last df) (df ! (length df - 2)) \<and>
                    2 \<le> bearish_count (last df) (df ! (length df - 2))
            then signal (generate_signals now df) = SELL \<and>
                 confidence (generate_signals now df) =
                   min (int (bearish_count (last df) (df ! (length df - 2))) * 20) 100
            else signal (generate_signals now df) = HOLD \<and>
                 confidence (generate_signals now df) = 50)"
    using assms by (simp add: generate_signals_def Let_def)
  show ?thesis unfolding Let_def b r using d by simp
qed

lemma round_half_even_nonneg: "0 \<le> r \<Longrightarrow> 0 \<le> round_half_even r"
  by (auto simp: round_half_even_def Let_def)

lemma round_half_even_zero_iff:
  assumes "0 \<le> r"
  shows "round_half_even r = 0 \<longleftrightarrow> r \<le> 1 / 2"
proof (cases "r < 1")
  case True
  then have "\<lfloor>r\<rfloor> = 0" using assms by (simp add: floor_eq_iff)
  then show ?thesis by (auto simp: round_half_even_def Let_def)
next
  case False
  then have "1 \<le> \<lfloor>r\<rfloor>" by (simp add: le_floor_iff)
  then have "1 \<le> round_half_even r" by (auto simp: round_half_even_def Let_def)
  then show ?thesis using False by auto
qed

lemma round_to_nonneg: "0 \<le> x \<Longrightarrow> 0 \<le> round_to n x"
  by (simp add: round_to_def round_half_even_nonneg)

lemma round_to_2_zero_iff: "0 \<le> x \<Longrightarrow> round_to 2 x = 0 \<longleftrightarrow> 200 * x \<le> 1"
  using round_half_even_zero_iff [of "x * 100"] by (auto simp: round_to_def)

lemma nth_calculate_indicators:
  "i < length df \<Longrightarrow>
   calculate_indicators df ! i =
     bar.extend (df ! i)
       (row.fields
          (fmul (fdiv (fsub (bb_upper (df ! i)) (bb_lower (df ! i))) (bb_middle (df ! i))) (Fin 100))
          (rolling_mean 20 (map (\<lambda>b. Fin (volume b)) df) ! i)
          (rolling_min 20 (map low df) ! i)
          (rolling_max 20 (map high df) ! i))"
  by (simp add: calculate_indicators_def Let_def)

lemma nth_rolling_min:
  "i < length xs \<Longrightarrow>
   rolling_min n xs ! i = (if Suc i < n \<or> n = 0 then NaN else Fin (list_min (window n i xs)))"
  by (simp add: rolling_min_def)

lemma nth_rolling_max:
  "i < length xs \<Longrightarrow>
   rolling_max n xs ! i = (if Suc i < n \<or> n = 0 then NaN else Fin (list_max (window n i xs)))"
  by (simp add: rolling_max_def)

lemma list_min_le: "x \<in> set xs \<Longrightarrow> list_min xs \<le> x"
  by (induction xs rule: list_min.induct) auto

lemma list_max_ge: "x \<in> set xs \<Longrightarrow> x \<le> list_max xs"
  by (induction xs rule: list_max.induct) auto

lemma row_fields [simp]:
  "close (bar.extend b (row.fields w v s r)) = close b"
  "low (bar.extend b (row.fields w v s r)) = low b"
  "high (bar.extend b (row.fields w v s r)) = high b"
  "bar_time (bar.extend b (row.fields w v s r)) = bar_time b"
  "support (bar.extend b (row.fields w v s r)) = s"
  "resistance (bar.extend b (row.fields w v s r)) = r"
  "volume_sma (bar.extend b (row.fields w v s r)) = v"
  "bb_width (bar.extend b (row.fields w v s r)) = w"
  by (simp_all add: bar.extend_def row.fields_def)


lemma window_last: "xs \<noteq> [] \<Longrightarrow> window n (length xs - 1) xs = tail n xs"
  by (simp add: window_def tail_def)

lemma last_calculate_indicators:
  assumes "20 \<le> length bars"
  shows "close (last (calculate_indicators bars)) = close (last bars)"
    and "low (last (calculate_indicators bars)) = low (last bars)"
    and "high (last (calculate_indicators bars)) = high (last bars)"
    and "bar_time (last (calculate_indicators bars)) = bar_time (last bars)"
    and "support (last (calculate_indicators bars)) = Fin (list_min (map low (tail 20 bars)))"
    and "resistance (last (calculate_indicators bars)) = Fin (list_max (map high (tail 20 bars)))"
proof -
  from assms have ne: "bars \<noteq> []" by auto
  then have l: "last (calculate_indicators bars) = calculate_indicators bars ! (length bars - 1)"
    by (metis last_conv_nth length_calculate_indicators length_0_conv)
  have i: "length bars - 1 < length bars" using ne by simp
  have w: "window 20 (length bars - Suc 0) (map f bars) = map f (tail 20 bars)" for f :: "bar \<Rightarrow> real"
    using ne window_last [of "map f bars" 20] by (simp add: tail_def drop_map)
  have n19: "\<not> length bars - Suc 0 < 19" using assms by simp
  have lb: "last bars = bars ! (length bars - 1)" using ne by (simp add: last_conv_nth)
  show "close (last (calculate_indicators bars)) = close (last bars)"
    and "low (last (calculate_indicators bars)) = low (last bars)"
    and "high (last (calculate_indicators bars)) = high (last bars)"
    and "bar_time (last (calculate_indicators bars)) = bar_time (last bars)"
    using i by (simp_all add: l lb nth_calculate_indicators)
  show "support (last (calculate_indicators bars)) = Fin (list_min (map low (tail 20 bars)))"
    using i n19 by (simp add: l nth_calculate_indicators nth_rolling_min w)
  show "resistance (last (calculate_indicators bars)) = Fin (list_max (map high (tail 20 bars)))"
    using i n19 by (simp add: l nth_calculate_indicators nth_rolling_max w)
qed

lemma last_in_tail: "xs \<noteq> [] \<Longrightarrow> 0 < n \<Longrightarrow> last xs \<in> set (tail n xs)"
  by (metis (no_types, lifting) tail_def diff_less drop_eq_Nil last_drop last_in_set length_greater_0_conv not_le)

lemma gs_direction:
  "signal (generate_signals now df) \<noteq> STRONG_SELL"
  by (simp add: generate_signals_def empty_signal_def Let_def)

lemma gs_levels:
  assumes "50 \<le> length df" "support (last df) = Fin sp" "resistance (last df) = Fin rs"
  shows "signal (generate_signals now df) = BUY \<Longrightarrow>
           entry_price (generate_signals now df) = Fin (close (last df)) \<and>
           stop_loss (generate_signals now df) = Fin (max sp (close (last df) * 0.95)) \<and>
           take_profit (generate_signals now df) = Fin (min rs (close (last df) * 1.1))"
    and "signal (generate_signals now df) = SELL \<Longrightarrow>
           entry_price (generate_signals now df) = Fin (close (last df)) \<and>
           stop_loss (generate_signals now df) = Fin (min rs (close (last df) * 1.05)) \<and>
           take_profit (generate_signals now df) = Fin (max sp (close (last df) * 0.9))"
    and "signal (generate_signals now df) \<noteq> BUY \<Longrightarrow> signal (generate_signals now df) \<noteq> SELL \<Longrightarrow>
           signal (generate_signals now df) = HOLD \<and>
           entry_price (generate_signals now df) = Fin 0 \<and>
           stop_loss (generate_signals now df) = Fin 0 \<and>
           take_profit (generate_signals now df) = Fin 0"
  using assms by (simp_all add: generate_signals_def Let_def split: if_splits)

lemma gs_risk_reward:
  assumes "50 \<le> length df"
    and "entry_price (generate_signals now df) = Fin e"
    and "stop_loss (generate_signals now df) = Fin sl"
    and "take_profit (generate_signals now df) = Fin tp"
  shows "risk_reward (generate_signals now df) =
           (if sl \<noteq> 0 \<and> e \<noteq> sl then Fin (round_to 2 (\<bar>tp - e\<bar> / \<bar>e - sl\<bar>)) else Fin 0)"
  using assms by (simp add: generate_signals_def Let_def split: if_splits)


lemma row_ta_fields [simp]:
  "sma_20 (bar.extend b (row.fields w v s r)) = sma_20 b"
  "sma_50 (bar.extend b (row.fields w v s r)) = sma_50 b"
  "ema_12 (bar.extend b (row.fields w v s r)) = ema_12 b"
  "ema_26 (bar.extend b (row.fields w v s r)) = ema_26 b"
  "macd (bar.extend b (row.fields w v s r)) = macd b"
  "macd_signal (bar.extend b (row.fields w v s r)) = macd_signal b"
  "rsi (bar.extend b (row.fields w v s r)) = rsi b"
  "bb_upper (bar.extend b (row.fields w v s r)) = bb_upper b"
  "bb_lower (bar.extend b (row.fields w v s r)) = bb_lower b"
  "volume (bar.extend b (row.fields w v s r)) = volume b"
  by (simp_all add: bar.extend_def row.fields_def)

lemma bb_tags_not_counted:
  "filter (\<lambda>s. str_in ''BULLISH'' s \<or> str_in ''OVERSOLD'' s) (bb_signals L) = []"
  "filter (\<lambda>s. str_in ''BEARISH'' s \<or> str_in ''OVERBOUGHT'' s) (bb_signals L) = []"
  by (simp_all add: bb_signals_def)

lemma buy_frame_shape:
  "length (buy_frame h) = 50"
  "last (buy_frame h) = jump_bar h"
  "buy_frame h ! 48 = dip_bar"
  "tail 20 (buy_frame h) = map flat_bar [30..<48] @ [dip_bar, jump_bar h]"
  by (simp_all add: buy_frame_def tail_def nth_append drop_map)

lemma sell_frame_shape:
  "length sell_frame = 50"
  "last sell_frame = fall_bar"
  "sell_frame ! 48 = rise_bar"
  "tail 20 sell_frame = map flat_bar [30..<48] @ [rise_bar, fall_bar]"
  by (simp_all add: sell_frame_def tail_def nth_append drop_map)

lemma flat_bar_fields [simp]:
  "low (flat_bar i) = 99" "high (flat_bar i) = 101" "volume (flat_bar i) = 1000"
  by (simp_all add: flat_bar_def)

lemma buy_frame_extremes:
  "list_min (map low (tail 20 (buy_frame h))) = 98.5"
  "list_max (map high (tail 20 (buy_frame h))) = max 101 h"
  by (simp_all add: buy_frame_shape dip_bar_def jump_bar_def comp_def)

lemma sell_frame_extremes:
  "list_min (map low (tail 20 sell_frame)) = 97.5"
  "list_max (map high (tail 20 sell_frame)) = 101.5"
  by (simp_all add: sell_frame_shape rise_bar_def fall_bar_def comp_def)


lemma last_row_nth:
  "df \<noteq> [] \<Longrightarrow> last (calculate_indicators df) = calculate_indicators df ! (length df - 1)"
  by (metis last_conv_nth length_calculate_indicators length_0_conv)

lemma buy_frame_rows:
  "last (calculate_indicators (buy_frame h)) = calculate_indicators (buy_frame h) ! 49"
  "calculate_indicators (buy_frame h) ! (length (calculate_indicators (buy_frame h)) - 2) =
     calculate_indicators (buy_frame h) ! 48"
  "buy_frame h ! 49 = jump_bar h"
proof -
  have "buy_frame h \<noteq> []" using buy_frame_shape(1) [of h] by auto
  then show "last (calculate_indicators (buy_frame h)) = calculate_indicators (buy_frame h) ! 49"
    using last_row_nth [of "buy_frame h"] by (simp add: buy_frame_shape)
  show "calculate_indicators (buy_frame h) ! (length (calculate_indicators (buy_frame h)) - 2) =
     calculate_indicators (buy_frame h) ! 48"
    by (simp add: buy_frame_shape)
  show "buy_frame h ! 49 = jump_bar h"
    by (simp add: buy_frame_def nth_append)
qed

lemma buy_frame_counts:
  "bullish_count (calculate_indicators (buy_frame h) ! 49) (calculate_indicators (buy_frame h) ! 48) = 3"
  "bearish_count (calculate_indicators (buy_frame h) ! 49) (calculate_indicators (buy_frame h) ! 48) = 1"
  by (simp_all add: nth_calculate_indicators buy_frame_shape buy_frame_rows
      bullish_count_def bearish_count_def counted_tags_def bb_tags_not_counted
      trend_signals_def macd_signals_def rsi_signals_def jump_bar_def dip_bar_def)

lemma buy_frame_signal:
  "signal (generate_signals now (calculate_indicators (buy_frame h))) = BUY"
  "confidence (generate_signals now (calculate_indicators (buy_frame h))) = 60"
  by (simp_all add: generate_signals_def Let_def buy_frame_shape buy_frame_rows buy_frame_counts)


lemma buy_frame_levels:
  "entry_price (generate_signals now (calculate_indicators (buy_frame h))) = Fin 102"
  "stop_loss (generate_signals now (calculate_indicators (buy_frame h))) = Fin 98.5"
  "take_profit (generate_signals now (calculate_indicators (buy_frame h))) = Fin (min (max 101 h) 112.2)"
proof -
  let ?df = "calculate_indicators (buy_frame h)"
  have len: "50 \<le> length ?df" by (simp add: buy_frame_shape)
  have b20: "20 \<le> length (buy_frame h)" by (simp add: buy_frame_shape)
  have sp: "support (last ?df) = Fin 98.5"
    using last_calculate_indicators(5) [OF b20] by (simp add: buy_frame_extremes)
  have rs: "resistance (last ?df) = Fin (max 101 h)"
    using last_calculate_indicators(6) [OF b20] by (simp add: buy_frame_extremes)
  have c: "close (last ?df) = 102"
    using last_calculate_indicators(1) [OF b20] by (simp add: buy_frame_shape jump_bar_def)
  note lv = gs_levels(1) [OF len sp rs buy_frame_signal(1), of now]
  show "entry_price (generate_signals now ?df) = Fin 102" using lv by (simp add: c)
  show "stop_loss (generate_signals now ?df) = Fin 98.5" using lv by (simp add: c)
  show "take_profit (generate_signals now ?df) = Fin (min (max 101 h) 112.2)"
    using lv by (simp add: c)
qed

text \<open>
  Claim C3, amended.  For every bar series the levels and the risk/reward ratio of the result
  are finite numbers, the ratio is at least 0, and it is 0 whenever entry equals stop-loss.
  The converse does not hold: the ratio is 0 exactly when entry equals stop-loss, or stop-loss
  is 0, or the reward is at most 0.005 times the risk, so that the quotient rounds to 0.00.
\<close>
theorem risk_reward_nonneg_zero_on_flat_risk:
  fixes now :: time and bars :: "bar list"
  defines "s \<equiv> generate_signals now (calculate_indicators bars)"
  shows "\<exists>e sl tp rr.
           entry_price s = Fin e \<and> stop_loss s = Fin sl \<and> take_profit s = Fin tp \<and>
           risk_reward s = Fin rr \<and> 0 \<le> rr \<and> (e = sl \<longrightarrow> rr = 0) \<and>
           (rr = 0 \<longleftrightarrow> e = sl \<or> sl = 0 \<or> 200 * \<bar>tp - e\<bar> \<le> \<bar>e - sl\<bar>)"
proof (cases "length bars < 50")
  case True
  then have "s = empty_signal now" by (simp add: s_def short_series)
  then show ?thesis by (simp add: empty_signal_def)
next
  case False
  let ?df = "calculate_indicators bars"
  have len: "50 \<le> length ?df" using False by simp
  have b20: "20 \<le> length bars" using False by simp
  note sp = last_calculate_indicators(5) [OF b20]
  note rs = last_calculate_indicators(6) [OF b20]
  obtain e sl tp where lv: "entry_price s = Fin e" "stop_loss s = Fin sl" "take_profit s = Fin tp"
    using gs_levels [OF len sp rs, of now] unfolding s_def by (cases "signal (generate_signals now ?df)") auto
  have rr: "risk_reward s =
      (if sl \<noteq> 0 \<and> e \<noteq> sl then Fin (round_to 2 (\<bar>tp - e\<bar> / \<bar>e - sl\<bar>)) else Fin 0)"
    using gs_risk_reward [OF len] lv unfolding s_def by blast
  show ?thesis
  proof (cases "sl \<noteq> 0 \<and> e \<noteq> sl")
    case True
    then have pos: "0 < \<bar>e - sl\<bar>" by simp
    have q: "0 \<le> \<bar>tp - e\<bar> / \<bar>e - sl\<bar>" by simp
    have "round_to 2 (\<bar>tp - e\<bar> / \<bar>e - sl\<bar>) = 0 \<longleftrightarrow> 200 * \<bar>tp - e\<bar> \<le> \<bar>e - sl\<bar>"
      using round_to_2_zero_iff [OF q] pos by (simp add: pos_divide_le_eq)
    then show ?thesis using True lv rr round_to_nonneg [OF q, of 2] by auto
  next
    case False
    then show ?thesis using lv rr by auto
  qed
qed


lemma buy_frame_risk_reward:
  "risk_reward (generate_signals now (calculate_indicators (buy_frame h))) =
     Fin (round_to 2 (\<bar>min (max 101 h) 112.2 - 102\<bar> / 3.5))"
proof -
  have len: "50 \<le> length (calculate_indicators (buy_frame h))" by (simp add: buy_frame_shape)
  show ?thesis
    using gs_risk_reward [OF len buy_frame_levels] by simp
qed

lemma round_to_2_examples:
  "round_to 2 0 = 0"
  "round_to 2 (1 / 7) = 7 / 50"
  by (simp_all add: round_to_def round_half_even_def Let_def)

text \<open>Witness for C2: the indicator table of 49 flat bars, one short of the window.\<close>
theorem short_series_no_data_witness:
  "length (calculate_indicators (map flat_bar [0..<49])) < 50 \<and>
   signal (generate_signals 7 (calculate_indicators (map flat_bar [0..<49]))) = NO_DATA \<and>
   confidence (generate_signals 7 (calculate_indicators (map flat_bar [0..<49]))) = 0 \<and>
   entry_price (generate_signals 7 (calculate_indicators (map flat_bar [0..<49]))) = Fin 0 \<and>
   stop_loss (generate_signals 7 (calculate_indicators (map flat_bar [0..<49]))) = Fin 0 \<and>
   take_profit (generate_signals 7 (calculate_indicators (map flat_bar [0..<49]))) = Fin 0 \<and>
   risk_reward (generate_signals 7 (calculate_indicators (map flat_bar [0..<49]))) = Fin 0"
proof -
  have h: "length (calculate_indicators (map flat_bar [0..<49])) < 50" by simp
  show ?thesis using h short_series_no_data [OF h, of 7] by simp
qed

text \<open>Witness for C1: the dip-and-jump series has three bullish tags and one bearish tag, and
  is a \<open>BUY\<close> with confidence 60.\<close>
theorem fusion_counts_evidence_witness:
  "50 \<le> length (calculate_indicators (buy_frame 102.5)) \<and>
   length (filter (\<lambda>t. str_in ''BULLISH'' t \<or> str_in ''OVERSOLD'' t)
     (concat (map snd (analysis (generate_signals 0 (calculate_indicators (buy_frame 102.5))))))) = 3 \<and>
   length (filter (\<lambda>t. str_in ''BEARISH'' t \<or> str_in ''OVERBOUGHT'' t)
     (concat (map snd (analysis (generate_signals 0 (calculate_indicators (buy_frame 102.5))))))) = 1 \<and>
   signal (generate_signals 0 (calculate_indicators (buy_frame 102.5))) = BUY \<and>
   confidence (generate_signals 0 (calculate_indicators (buy_frame 102.5))) = 60"
proof -
  have h: "50 \<le> length (calculate_indicators (buy_frame 102.5))" by (simp add: buy_frame_shape)
  show ?thesis
    using h fusion_counts_evidence [OF h, of 0]
    by (simp add: Let_def buy_frame_shape buy_frame_rows buy_frame_counts)
qed

text \<open>
  Counterexample to C3 as stated: when the last bar closes at its high of 102, the 20-bar
  resistance equals the close, take-profit equals entry, and the ratio is 0 although entry
  (102) and stop-loss (98.5) differ.
\<close>
theorem risk_reward_zero_with_risk_counterexample:
  "risk_reward (generate_signals 0 (calculate_indicators (buy_frame 102))) = Fin 0 \<and>
   entry_price (generate_signals 0 (calculate_indicators (buy_frame 102))) = Fin 102 \<and>
   stop_loss (generate_signals 0 (calculate_indicators (buy_frame 102))) = Fin 98.5 \<and>
   take_profit (generate_signals 0 (calculate_indicators (buy_frame 102))) = Fin 102 \<and>
   entry_price (generate_signals 0 (calculate_indicators (buy_frame 102))) \<noteq>
   stop_loss (generate_signals 0 (calculate_indicators (buy_frame 102)))"
  by (simp add: buy_frame_levels buy_frame_risk_reward round_to_2_examples)

text \<open>Witness for C3 as amended: the series closing at 102 under a high of 102.5 has risk 3.5,
  reward 0.5 and ratio 0.14.\<close>
theorem risk_reward_nonneg_zero_on_flat_risk_witness:
  "entry_price (generate_signals 0 (calculate_indicators (buy_frame 102.5))) = Fin 102 \<and>
   stop_loss (generate_signals 0 (calculate_indicators (buy_frame 102.5))) = Fin 98.5 \<and>
   take_profit (generate_signals 0 (calculate_indicators (buy_frame 102.5))) = Fin 102.5 \<and>
   risk_reward (generate_signals 0 (calculate_indicators (buy_frame 102.5))) = Fin 0.14 \<and>
   (0 :: real) \<le> 0.14 \<and> \<not> 200 * \<bar>102.5 - 102 :: real\<bar> \<le> \<bar>102 - 98.5\<bar>"
  using risk_reward_nonneg_zero_on_flat_risk [of 0 "buy_frame 102.5"]
  by (simp add: buy_frame_levels buy_frame_risk_reward round_to_2_examples)

subsection \<open>Risk levels around the entry, and the clock\<close>

lemma support_le_close:
  assumes "20 \<le> length bars" "low (last bars) \<le> close (last bars)"
  shows "list_min (map low (tail 20 bars)) \<le> close (last bars)"
proof -
  from assms have ne: "bars \<noteq> []" by auto
  have "last bars \<in> set (tail 20 bars)" using last_in_tail [OF ne, of 20] by simp
  then have "low (last bars) \<in> set (map low (tail 20 bars))" by simp
  from list_min_le [OF this] assms show ?thesis by simp
qed

lemma close_le_resistance:
  assumes "20 \<le> length bars" "close (last bars) \<le> high (last bars)"
  shows "close (last bars) \<le> list_max (map high (tail 20 bars))"
proof -
  from assms have ne: "bars \<noteq> []" by auto
  have "last bars \<in> set (tail 20 bars)" using last_in_tail [OF ne, of 20] by simp
  then have "high (last bars) \<in> set (map high (tail 20 bars))" by simp
  from list_max_ge [OF this] assms show ?thesis by simp
qed

text \<open>
  Claim C10.  For every bar series of at least 50 bars with positive prices, the 20-bar support
  (minimum of lows, current bar included) is at most the latest close and the 20-bar resistance
  (maximum of highs) is at least the latest close; hence a \<open>BUY\<close> has stop-loss \<open>\<le>\<close> entry \<open>\<le>\<close>
  take-profit, and a \<open>SELL\<close> has take-profit \<open>\<le>\<close> entry \<open>\<le>\<close> stop-loss.  A bar is an
  open/high/low/close record, so its close lies between its low and its high; of this the
  property uses only the last bar, and of the positive prices only the last close.
\<close>
theorem levels_ordered_around_entry:
  fixes now :: time and bars :: "bar list"
  defines "s \<equiv> generate_signals now (calculate_indicators bars)"
  assumes len: "50 \<le> length bars"
    and pos: "0 < close (last bars)"
    and lo: "low (last bars) \<le> close (last bars)"
    and hi: "close (last bars) \<le> high (last bars)"
  shows "fle (support (last (calculate_indicators bars))) (Fin (close (last bars))) \<and>
         fle (Fin (close (last bars))) (resistance (last (calculate_indicators bars))) \<and>
         (signal s = BUY \<longrightarrow> fle (stop_loss s) (entry_price s) \<and> fle (entry_price s) (take_profit s)) \<and>
         (signal s = SELL \<longrightarrow> fle (take_profit s) (entry_price s) \<and> fle (entry_price s) (stop_loss s))"
proof -
  let ?df = "calculate_indicators bars"
  have b20: "20 \<le> length bars" using len by simp
  have len': "50 \<le> length ?df" using len by simp
  note sp = last_calculate_indicators(5) [OF b20]
  note rs = last_calculate_indicators(6) [OF b20]
  note c = last_calculate_indicators(1) [OF b20]
  note a = support_le_close [OF b20 lo]
  note b = close_le_resistance [OF b20 hi]
  have "signal s = BUY \<Longrightarrow> fle (stop_loss s) (entry_price s) \<and> fle (entry_price s) (take_profit s)"
    using gs_levels(1) [OF len' sp rs, of now] a b pos unfolding s_def by (simp add: c)
  moreover have "signal s = SELL \<Longrightarrow> fle (take_profit s) (entry_price s) \<and> fle (entry_price s) (stop_loss s)"
    using gs_levels(2) [OF len' sp rs, of now] a b pos unfolding s_def by (simp add: c)
  ultimately show ?thesis using a b by (auto simp: sp rs)
qed

text \<open>
  Claim C9, amended.  On a frame of at least 50 rows two calls return the same record in every
  field, whatever the clock reads.  On a shorter frame the record's timestamp is the clock's
  reading at the call, and two calls agree in every field except the timestamp.
\<close>
theorem analysis_deterministic_up_to_clock:
  "(50 \<le> length df \<longrightarrow> generate_signals now1 df = generate_signals now2 df) \<and>
   (length df < 50 \<longrightarrow>
      timestamp (generate_signals now1 df) = now1 \<and>
      generate_signals now1 df = (generate_signals now2 df)\<lparr>timestamp := now1\<rparr>)"
  by (simp add: generate_signals_def empty_signal_def)

text \<open>Witness for C9 as amended: a 50-bar frame, and a 49-bar frame, at clock readings 0 and 1.\<close>
theorem analysis_deterministic_up_to_clock_witness:
  "50 \<le> length (calculate_indicators (buy_frame 102.5)) \<and>
   generate_signals 0 (calculate_indicators (buy_frame 102.5)) =
     generate_signals 1 (calculate_indicators (buy_frame 102.5)) \<and>
   length (calculate_indicators (map flat_bar [0..<49])) < 50 \<and>
   timestamp (generate_signals 0 (calculate_indicators (map flat_bar [0..<49]))) = 0 \<and>
   generate_signals 0 (calculate_indicators (map flat_bar [0..<49])) =
     (generate_signals 1 (calculate_indicators (map flat_bar [0..<49])))\<lparr>timestamp := 0\<rparr>"
  using analysis_deterministic_up_to_clock [of "calculate_indicators (buy_frame 102.5)" 0 1]
    analysis_deterministic_up_to_clock [of "calculate_indicators (map flat_bar [0..<49])" 0 1]
  by (simp add: buy_frame_shape)

text \<open>
  Counterexample to C9 as stated: on the same 49-bar frame, calls at clock readings 0 and 1
  return records with timestamps 0 and 1, hence different records.
\<close>
theorem empty_signal_timestamp_counterexample:
  "length (calculate_indicators (map flat_bar [0..<49])) < 50 \<and>
   timestamp (generate_signals 0 (calculate_indicators (map flat_bar [0..<49]))) = 0 \<and>
   timestamp (generate_signals 1 (calculate_indicators (map flat_bar [0..<49]))) = 1 \<and>
   generate_signals 0 (calculate_indicators (map flat_bar [0..<49])) \<noteq>
     generate_signals 1 (calculate_indicators (map flat_bar [0..<49]))"
  by (simp add: generate_signals_def empty_signal_def)

text \<open>
  Witness for C10: the dip-and-jump series, whose last bar has low 99, close 102 and high
  102.5; the signal is \<open>BUY\<close> with stop-loss 98.5, entry 102 and take-profit 102.5.
\<close>
theorem levels_ordered_around_entry_witness:
  "50 \<le> length (buy_frame 102.5) \<and> 0 < close (last (buy_frame 102.5)) \<and>
   low (last (buy_frame 102.5)) \<le> close (last (buy_frame 102.5)) \<and>
   close (last (buy_frame 102.5)) \<le> high (last (buy_frame 102.5)) \<and>
   signal (generate_signals 0 (calculate_indicators (buy_frame 102.5))) = BUY \<and>
   stop_loss (generate_signals 0 (calculate_indicators (buy_frame 102.5))) = Fin 98.5 \<and>
   entry_price (generate_signals 0 (calculate_indicators (buy_frame 102.5))) = Fin 102 \<and>
   take_profit (generate_signals 0 (calculate_indicators (buy_frame 102.5))) = Fin 102.5 \<and>
   fle (stop_loss (generate_signals 0 (calculate_indicators (buy_frame 102.5))))
     (entry_price (generate_signals 0 (calculate_indicators (buy_frame 102.5)))) \<and>
   fle (entry_price (generate_signals 0 (calculate_indicators (buy_frame 102.5))))
     (take_profit (generate_signals 0 (calculate_indicators (buy_frame 102.5))))"
proof -
  have h: "50 \<le> length (buy_frame 102.5)" "0 < close (last (buy_frame 102.5))"
    "low (last (buy_frame 102.5)) \<le> close (last (buy_frame 102.5))"
    "close (last (buy_frame 102.5)) \<le> high (last (buy_frame 102.5))"
    by (simp_all add: buy_frame_shape jump_bar_def)
  show ?thesis
    using h levels_ordered_around_entry [OF h, of 0]
    by (simp add: buy_frame_signal buy_frame_levels)
qed

subsection \<open>The long-horizon engine: strong sells and the oscillator\<close>

lemma length_rolling_mean [simp]: "length (rolling_mean n xs) = length xs"
  by (simp add: rolling_mean_def)

lemma length_rolling_min [simp]: "length (rolling_min n xs) = length xs"
  by (simp add: rolling_min_def)

lemma length_rolling_max [simp]: "length (rolling_max n xs) = length xs"
  by (simp add: rolling_max_def)

lemma nth_rolling_mean:
  "i < length xs \<Longrightarrow>
   rolling_mean n xs ! i =
     (if Suc i < n \<or> n = 0 \<or> NaN \<in> set (window n i xs) then NaN
      else fdiv (foldl fadd (Fin 0) (window n i xs)) (Fin (real n)))"
  by (simp add: rolling_mean_def Let_def)

lemma window_map: "window n i (map f xs) = map f (window n i xs)"
  by (simp add: window_def take_map drop_map)

lemma length_calculate_rsi [simp]: "length (calculate_rsi data period) = length data"
  by (simp add: calculate_rsi_def)

lemma length_generate_enhanced_signals [simp]:
  "length (generate_enhanced_signals data) = length data"
  by (simp add: generate_enhanced_signals_def)

lemma signal_row_fields [simp]:
  "Close (stock_bar.extend b (signal_row.fields ss sl r vm pc rh rl sg ps sr st)) = Close b"
  "Volume (stock_bar.extend b (signal_row.fields ss sl r vm pc rh rl sg ps sr st)) = Volume b"
  "Date (stock_bar.extend b (signal_row.fields ss sl r vm pc rh rl sg ps sr st)) = Date b"
  "SMA_short (stock_bar.extend b (signal_row.fields ss sl r vm pc rh rl sg ps sr st)) = ss"
  "SMA_long (stock_bar.extend b (signal_row.fields ss sl r vm pc rh rl sg ps sr st)) = sl"
  "RSI (stock_bar.extend b (signal_row.fields ss sl r vm pc rh rl sg ps sr st)) = r"
  "Volume_MA (stock_bar.extend b (signal_row.fields ss sl r vm pc rh rl sg ps sr st)) = vm"
  "Recent_High (stock_bar.extend b (signal_row.fields ss sl r vm pc rh rl sg ps sr st)) = rh"
  "Recent_Low (stock_bar.extend b (signal_row.fields ss sl r vm pc rh rl sg ps sr st)) = rl"
  "Signal (stock_bar.extend b (signal_row.fields ss sl r vm pc rh rl sg ps sr st)) = sg"
  "Signal_Reason (stock_bar.extend b (signal_row.fields ss sl r vm pc rh rl sg ps sr st)) = sr"
  by (simp_all add: stock_bar.extend_def signal_row.fields_def)

lemma nth_generate_enhanced_signals:
  "i < length data \<Longrightarrow>
   generate_enhanced_signals data ! i =
     stock_bar.extend (data ! i)
       (signal_row.fields (SMA_short_col data ! i) (SMA_long_col data ! i)
          (RSI_col data ! i) (Volume_MA_col data ! i) (Price_Change_Pct_col data ! i)
          (Recent_High_col data ! i) (Recent_Low_col data ! i)
          (Signal_at data i) (Position_at data i) (Signal_Reason_at data i) WEAK)"
  by (simp add: generate_enhanced_signals_def)

lemma last_generate_enhanced_signals:
  "data \<noteq> [] \<Longrightarrow>
   last (generate_enhanced_signals data) = generate_enhanced_signals data ! (length data - 1)"
  by (metis last_conv_nth length_generate_enhanced_signals length_0_conv)

text \<open>
  Claim C4.  Whenever the long-horizon engine labels row \<open>i\<close> \<open>STRONG_SELL\<close>, one of the three
  strong-sell conditions holds at that row (confirmed crossover with overbought RSI, RSI above 85
  with the volume ratio above the high-volume multiplier, or a drop worse than -10% with the
  volume ratio above the multiplier), and one of the regular sell families holds there as well
  (confirmed bearish crossover, RSI above the overbought threshold, high-volume sell-off, or
  bearish divergence).
\<close>
theorem strong_sell_has_sell_evidence:
  assumes "i < length data"
    and "Signal (generate_enhanced_signals data ! i) = STRONG_SELL"
  shows "(strong_sell_multiple data i \<or> strong_sell_extreme data i \<or> strong_sell_crash data i) \<and>
         (sma_cross_confirmed data i \<or> sell_rsi_overbought data i \<or> sell_high_volume data i \<or>
          sell_divergence data i)"
proof -
  from assms have "Signal_at data i = STRONG_SELL"
    by (simp add: nth_generate_enhanced_signals)
  then have strong: "strong_sell data i"
    by (auto simp: Signal_at_def loc_set_def split: if_splits)
  then have first: "strong_sell_multiple data i \<or> strong_sell_extreme data i \<or> strong_sell_crash data i"
    by (simp add: strong_sell_def)
  have m: "strong_sell_multiple data i \<Longrightarrow> sma_cross_confirmed data i"
    by (simp add: strong_sell_multiple_def)
  have e: "strong_sell_extreme data i \<Longrightarrow> sell_rsi_overbought data i"
  proof -
    assume "strong_sell_extreme data i"
    then have "fgt (RSI_col data ! i) (Fin 85)" by (simp add: strong_sell_extreme_def)
    then show ?thesis
      by (cases "RSI_col data ! i")
         (simp_all add: sell_rsi_overbought_def RSI_OVERBOUGHT_THRESHOLD_def fgt_def)
  qed
  have c: "strong_sell_crash data i \<Longrightarrow> sell_high_volume data i"
  proof -
    assume a: "strong_sell_crash data i"
    then have "flt (Price_Change_Pct_col data ! i) (Fin (- 10))" by (simp add: strong_sell_crash_def)
    then have "flt (Price_Change_Pct_col data ! i) (Fin (- 5))"
      by (cases "Price_Change_Pct_col data ! i") simp_all
    then show ?thesis using a by (simp add: sell_high_volume_def strong_sell_crash_def)
  qed
  from first m e c show ?thesis by blast
qed

text \<open>
  Claim C6.  \<open>calculate_rsi\<close> returns a value for every row and never faults on a zero
  denominator: where the rolling average loss is 0 and the rolling average gain is positive the
  oscillator is exactly 100, and where both averages are 0 it is not-a-number.
\<close>
theorem rsi_zero_average_loss:
  assumes "i < length data"
  shows "length (calculate_rsi data period) = length data \<and>
         (avg_loss data period ! i = Fin 0 \<and> avg_gain data period ! i = Fin g \<and> 0 < g \<longrightarrow>
            calculate_rsi data period ! i = Fin 100) \<and>
         (avg_loss data period ! i = Fin 0 \<and> avg_gain data period ! i = Fin 0 \<longrightarrow>
            calculate_rsi data period ! i = NaN)"
  using assms by (simp add: calculate_rsi_def Let_def inf_signed_def fsub_def)


lemma stock_frame_shape:
  "length (stock_frame c v) = 50"
  "stock_frame c v \<noteq> []"
  "last (stock_frame c v) = last_stock_bar c v"
  "stock_frame c v ! 49 = last_stock_bar c v"
  "stock_frame c v ! 48 = flat_stock_bar 48"
  "window 20 49 (stock_frame c v) = map flat_stock_bar [30..<49] @ [last_stock_bar c v]"
  "window 21 49 (stock_frame c v) = map flat_stock_bar [29..<49] @ [last_stock_bar c v]"
  "window 50 49 (stock_frame c v) = map flat_stock_bar [0..<49] @ [last_stock_bar c v]"
  "window 10 49 (stock_frame c v) = map flat_stock_bar [40..<49] @ [last_stock_bar c v]"
  by (simp_all add: stock_frame_def window_def nth_append drop_map)

lemma flat_stock_bar_fields [simp]:
  "Close (flat_stock_bar i) = 1000" "Volume (flat_stock_bar i) = 2000000"
  "High (flat_stock_bar i) = 1010" "Low (flat_stock_bar i) = 990"
  by (simp_all add: flat_stock_bar_def)

lemma last_stock_bar_fields [simp]:
  "Close (last_stock_bar c v) = c" "Volume (last_stock_bar c v) = v"
  "High (last_stock_bar c v) = max 1010 c" "Low (last_stock_bar c v) = min 990 c"
  "Date (last_stock_bar c v) = 49"
  by (simp_all add: last_stock_bar_def)

lemma stock_frame_volume_ma:
  "Volume_MA_col (stock_frame c v) ! 49 = Fin ((38000000 + v) / 20)"
  by (simp add: Volume_MA_col_def nth_rolling_mean stock_frame_shape window_map comp_def)

lemma stock_frame_pct:
  "Price_Change_Pct_col (stock_frame c v) ! 49 = Fin ((c / 1000 - 1) * 100)"
  by (simp add: Price_Change_Pct_col_def pct_change_def stock_frame_shape)

lemma stock_frame_volume_ratio:
  "0 \<le> v \<Longrightarrow> volume_ratio_col (stock_frame c v) ! 49 = Fin (v / ((38000000 + v) / 20))"
  by (simp add: volume_ratio_col_def stock_frame_shape stock_frame_volume_ma)


lemma crash_frame_masks:
  "strong_sell_crash (stock_frame 800 10000000) 49"
  "sell_high_volume (stock_frame 800 10000000) 49"
  by (simp_all add: strong_sell_crash_def sell_high_volume_def stock_frame_pct
      stock_frame_volume_ratio HIGH_VOLUME_SELL_MULTIPLIER_def)

lemma crash_frame_signal:
  "Signal (generate_enhanced_signals (stock_frame 800 10000000) ! 49) = STRONG_SELL"
  by (simp add: nth_generate_enhanced_signals stock_frame_shape Signal_at_def loc_set_def
      strong_sell_def crash_frame_masks)

text \<open>Witness for C4: after 49 flat days the price falls 20% on five times the usual volume;
  the last row is a \<open>STRONG_SELL\<close> by the crash condition and satisfies the high-volume sell-off.\<close>
theorem strong_sell_has_sell_evidence_witness:
  "49 < length (stock_frame 800 10000000) \<and>
   Signal (generate_enhanced_signals (stock_frame 800 10000000) ! 49) = STRONG_SELL \<and>
   Price_Change_Pct_col (stock_frame 800 10000000) ! 49 = Fin (- 20) \<and>
   strong_sell_crash (stock_frame 800 10000000) 49 \<and>
   sell_high_volume (stock_frame 800 10000000) 49 \<and>
   (strong_sell_multiple (stock_frame 800 10000000) 49 \<or>
    strong_sell_extreme (stock_frame 800 10000000) 49 \<or>
    strong_sell_crash (stock_frame 800 10000000) 49) \<and>
   (sma_cross_confirmed (stock_frame 800 10000000) 49 \<or>
    sell_rsi_overbought (stock_frame 800 10000000) 49 \<or>
    sell_high_volume (stock_frame 800 10000000) 49 \<or>
    sell_divergence (stock_frame 800 10000000) 49)"
proof -
  have h: "49 < length (stock_frame 800 10000000)" by (simp add: stock_frame_shape)
  show ?thesis
    using h strong_sell_has_sell_evidence [OF h crash_frame_signal]
    by (simp add: crash_frame_signal crash_frame_masks stock_frame_pct)
qed

lemma stock_frame_close_list: "map Close (stock_frame c v) = replicate 49 1000 @ [c]"
  by (simp add: stock_frame_def comp_def map_replicate_const)

lemma nth_diff:
  "i < length xs \<Longrightarrow> diff xs ! i = (if i = 0 then NaN else Fin (xs ! i - xs ! (i - 1)))"
  by (simp add: diff_def)

lemma length_diff [simp]: "length (diff xs) = length xs"
  by (simp add: diff_def)

lemma diff_flat_then_step:
  "diff (replicate (Suc n) a @ [c]) = NaN # replicate n (Fin 0) @ [Fin (c - a)]"
proof (rule nth_equalityI)
  show "length (diff (replicate (Suc n) a @ [c])) = length (NaN # replicate n (Fin 0) @ [Fin (c - a)])"
    by simp
next
  fix i assume "i < length (diff (replicate (Suc n) a @ [c]))"
  then have i: "i < Suc (Suc n)" by simp
  then have il: "i < length (replicate (Suc n) a @ [c])" by simp
  consider "i = 0" | j where "i = Suc j" "j < n" | "i = Suc n"
    using i by (cases i) (auto simp: less_Suc_eq)
  then show "diff (replicate (Suc n) a @ [c]) ! i = (NaN # replicate n (Fin 0) @ [Fin (c - a)]) ! i"
  proof cases
    case 1
    then show ?thesis using nth_diff [OF il] by simp
  next
    case 2
    have "(replicate (Suc n) a @ [c]) ! Suc j = a" "(replicate (Suc n) a @ [c]) ! j = a"
      using 2 by (simp_all add: nth_append del: replicate_Suc)
    then have "diff (replicate (Suc n) a @ [c]) ! i = Fin 0"
      using nth_diff [OF il] 2 by simp
    then show ?thesis using 2 by (simp add: nth_append)
  next
    case 3
    have "(replicate (Suc n) a @ [c]) ! Suc n = c" "(replicate (Suc n) a @ [c]) ! n = a"
      by (simp_all add: nth_append del: replicate_Suc)
    then have "diff (replicate (Suc n) a @ [c]) ! i = Fin (c - a)"
      using nth_diff [OF il] 3 by simp
    then show ?thesis using 3 by (simp add: nth_append)
  qed
qed

lemma stock_frame_diff:
  "diff (map Close (stock_frame c v)) = NaN # replicate 48 (Fin 0) @ [Fin (c - 1000)]"
proof -
  have "replicate 49 (1000 :: real) = replicate (Suc 48) 1000" by simp
  then show ?thesis
    using diff_flat_then_step [of 48 1000 c] by (simp only: stock_frame_close_list)
qed

lemma foldl_fadd_zeros: "foldl fadd (Fin a) (replicate n (Fin 0)) = Fin a"
  by (induction n) simp_all

lemma rolling_mean_zeros_then:
  assumes "Suc k = n" "k \<le> m"
  shows "rolling_mean n (replicate (Suc m) (Fin 0) @ [Fin x]) ! Suc m = Fin (x / real n)"
    and "rolling_mean n (replicate (Suc m) (Fin 0) @ [Fin x]) ! m = Fin 0"
proof -
  have w1: "window n (Suc m) (replicate (Suc m) (Fin 0) @ [Fin x]) = replicate k (Fin 0) @ [Fin x]"
    using assms by (auto simp: window_def simp del: replicate_Suc)
  have w2: "window n m (replicate (Suc m) (Fin 0) @ [Fin x]) = replicate n (Fin 0)"
    using assms by (auto simp: window_def min_def simp del: replicate_Suc)
  have n0: "n \<noteq> 0" "\<not> Suc (Suc m) < n" "\<not> Suc m < n" using assms by auto
  show "rolling_mean n (replicate (Suc m) (Fin 0) @ [Fin x]) ! Suc m = Fin (x / real n)"
    using n0 by (simp add: nth_rolling_mean w1 foldl_fadd_zeros del: replicate_Suc)
  show "rolling_mean n (replicate (Suc m) (Fin 0) @ [Fin x]) ! m = Fin 0"
    using n0 by (simp add: nth_rolling_mean w2 foldl_fadd_zeros del: replicate_Suc)
qed


lemma stock_frame_gains:
  "1000 \<le> c \<Longrightarrow>
   where_else_zero (\<lambda>d. fgt d (Fin 0)) (diff (map Close (stock_frame c v))) =
     Fin 0 # replicate 48 (Fin 0) @ [Fin (c - 1000)]"
  "1000 \<le> c \<Longrightarrow>
   map fneg (where_else_zero (\<lambda>d. flt d (Fin 0)) (diff (map Close (stock_frame c v)))) =
     Fin 0 # replicate 48 (Fin 0) @ [Fin 0]"
  by (simp_all add: stock_frame_diff where_else_zero_def fgt_def)

lemma stock_frame_averages:
  assumes "1000 \<le> c"
  shows "avg_gain (stock_frame c v) 21 ! 49 = Fin ((c - 1000) / 21)"
    and "avg_loss (stock_frame c v) 21 ! 49 = Fin 0"
    and "avg_gain (stock_frame c v) 21 ! 48 = Fin 0"
    and "avg_loss (stock_frame c v) 21 ! 48 = Fin 0"
proof -
  have k: "Suc 20 = 21" "(20::nat) \<le> 48" by simp_all
  note r1 = rolling_mean_zeros_then(1) [OF k, unfolded replicate_Suc append_Cons]
  note r2 = rolling_mean_zeros_then(2) [OF k, unfolded replicate_Suc append_Cons]
  show "avg_gain (stock_frame c v) 21 ! 49 = Fin ((c - 1000) / 21)"
    using r1 [of "c - 1000"] by (simp add: avg_gain_def stock_frame_gains(1) [OF assms])
  show "avg_loss (stock_frame c v) 21 ! 49 = Fin 0"
    using r1 [of 0] by (simp add: avg_loss_def stock_frame_gains(2) [OF assms])
  show "avg_gain (stock_frame c v) 21 ! 48 = Fin 0"
    using r2 [of "c - 1000"] by (simp add: avg_gain_def stock_frame_gains(1) [OF assms])
  show "avg_loss (stock_frame c v) 21 ! 48 = Fin 0"
    using r2 [of 0] by (simp add: avg_loss_def stock_frame_gains(2) [OF assms])
qed

text \<open>Witness for C6: 49 flat days and a last day that gains 29.96.  At the last row the average
  loss is 0 and the average gain is 29.96 / 21, so the oscillator is 100; one row earlier both
  averages are 0 and the oscillator is undefined.\<close>
theorem rsi_zero_average_loss_witness:
  "49 < length (stock_frame 1029.96 2000000) \<and>
   avg_loss (stock_frame 1029.96 2000000) RSI_PERIOD ! 49 = Fin 0 \<and>
   avg_gain (stock_frame 1029.96 2000000) RSI_PERIOD ! 49 = Fin (29.96 / 21) \<and>
   (0 :: real) < 29.96 / 21 \<and>
   calculate_rsi (stock_frame 1029.96 2000000) RSI_PERIOD ! 49 = Fin 100 \<and>
   48 < length (stock_frame 1029.96 2000000) \<and>
   avg_loss (stock_frame 1029.96 2000000) RSI_PERIOD ! 48 = Fin 0 \<and>
   avg_gain (stock_frame 1029.96 2000000) RSI_PERIOD ! 48 = Fin 0 \<and>
   calculate_rsi (stock_frame 1029.96 2000000) RSI_PERIOD ! 48 = NaN"
proof -
  have c: "(1000 :: real) \<le> 1029.96" by simp
  have h: "49 < length (stock_frame 1029.96 2000000)" "48 < length (stock_frame 1029.96 2000000)"
    by (simp_all add: stock_frame_shape)
  note av = stock_frame_averages [OF c, of 2000000]
  show ?thesis
    using h av rsi_zero_average_loss [OF h(1), of 21 "29.96 / 21"]
      rsi_zero_average_loss [OF h(2), of 21 0]
    by (simp add: RSI_PERIOD_def)
qed

subsection \<open>The head-and-shoulders rule, the validator and its levels\<close>

lemma nlargest_descending:
  assumes "i \<le> j" "j < length (nlargest n xs)"
  shows "nlargest n xs ! j \<le> nlargest n xs ! i"
proof -
  have "sorted (map (\<lambda>x. - x) (nlargest n xs))"
    unfolding nlargest_def take_map [symmetric] by (rule sorted_wrt_take) (rule sorted_sort_key)
  then have "map (\<lambda>x. - x) (nlargest n xs) ! i \<le> map (\<lambda>x. - x) (nlargest n xs) ! j"
    using assms by (simp add: sorted_iff_nth_mono)
  then show ?thesis using assms by simp
qed

text \<open>\<open>nlargest\<close> orders the peaks by height, largest first, so the second peak can never exceed
  the first: the rule in \<open>detect_patterns\<close> never fires.\<close>
lemma head_shoulders_never_flagged: "head_shoulders_flag highs = ''NONE''"
proof -
  let ?P = "nlargest 3 (tail 20 highs)"
  have "\<not> (length ?P = 3 \<and> ?P ! 0 < ?P ! 1 \<and> ?P ! 2 < ?P ! 1)"
  proof
    assume a: "length ?P = 3 \<and> ?P ! 0 < ?P ! 1 \<and> ?P ! 2 < ?P ! 1"
    then have "?P ! 1 \<le> ?P ! 0"
      using nlargest_descending [of 0 1 3 "tail 20 highs"] by simp
    with a show False by simp
  qed
  then show ?thesis unfolding head_shoulders_flag_def Let_def by (simp only: if_False if_cancel)
qed

lemma peaks_frame_highs:
  "map high peaks_frame =
     map (\<lambda>i. if i = 35 then 105 else if i = 40 then 110 else if i = 45 then 104 else 101) [0..<50]"
  by (simp add: peaks_frame_def peak_bar_def comp_def)

lemma peaks_frame_recent:
  "tail 20 (map high peaks_frame) =
     [101, 101, 101, 101, 101, 105, 101, 101, 101, 101, 110, 101, 101, 101, 101, 104, 101, 101, 101, 101]"
  by (simp add: peaks_frame_highs tail_def drop_map)

lemma peaks_frame_nlargest:
  "nlargest 3 (tail 20 (map high peaks_frame)) = [110, 105, 104]"
  by (simp add: peaks_frame_recent nlargest_def)

lemma peaks_frame_by_time:
  "head_shoulders_by_time (map high peaks_frame) = ''BEARISH''"
  by (simp add: head_shoulders_by_time_def peaks_frame_recent Let_def)

lemma length_peaks_frame: "length peaks_frame = 50"
  by (simp add: peaks_frame_def)

text \<open>
  Claim C5 (the code misses it).  On the 50-bar series whose last 20 highs peak at 105, 110 and
  104 in this order of time, the middle peak exceeds both neighbours, so the rule as the claim
  states it flags \<open>BEARISH\<close>; the code receives the peaks as 110, 105, 104 and reports \<open>NONE\<close>.
\<close>
theorem head_shoulders_missed_at_peaks:
  "length (calculate_indicators peaks_frame) = 50 \<and>
   tail 20 (map high peaks_frame) =
     [101, 101, 101, 101, 101, 105, 101, 101, 101, 101, 110, 101, 101, 101, 101, 104, 101, 101, 101, 101] \<and>
   nlargest 3 (tail 20 (map high peaks_frame)) = [110, 105, 104] \<and>
   head_shoulders_by_time (map high peaks_frame) = ''BEARISH'' \<and>
   map_of (detect_patterns (calculate_indicators peaks_frame)) ''head_shoulders'' = Some ''NONE''"
  using peaks_frame_recent peaks_frame_nlargest peaks_frame_by_time
  by (simp add: detect_patterns_def head_shoulders_never_flagged length_peaks_frame)


lemma validate_signal_fields:
  assumes "data \<noteq> []"
  shows "validate_signal data symb = Inr (projr (validate_signal data symb))"
    and "signal' (projr (validate_signal data symb)) = Signal (last data)"
    and "stop_loss_price (projr (validate_signal data symb)) =
           fround 2 (Fin (Close (last data) * (1 - STOP_LOSS_PERCENTAGE)))"
    and "take_profit_price (projr (validate_signal data symb)) =
           fround 2 (Fin (Close (last data) * (1 + TAKE_PROFIT_PERCENTAGE)))"
    and "current_price (projr (validate_signal data symb)) = fround 2 (Fin (Close (last data)))"
    and "recent_high (projr (validate_signal data symb)) = fround 2 (Recent_High (last data))"
    and "recent_low (projr (validate_signal data symb)) = fround 2 (Recent_Low (last data))"
    and "valid (projr (validate_signal data symb)) \<longleftrightarrow>
           MIN_VOLUME_THRESHOLD \<le> Volume (last data) \<and>
           SMA_short (last data) \<noteq> NaN \<and> SMA_long (last data) \<noteq> NaN"
    and "price_change (projr (validate_signal data symb)) =
           fround 2
             (fmul (fdiv (fsub (Fin (Close (last data)))
                            (Fin (Close (if 1 < length data then data ! (length data - 2) else last data))))
                      (Fin (Close (if 1 < length data then data ! (length data - 2) else last data))))
                (Fin 100))"
    and "strength' (projr (validate_signal data symb)) =
           (if signal' (projr (validate_signal data symb)) = STRONG_SELL then VERY_STRONG
            else if valid (projr (validate_signal data symb)) \<and>
                    fge (fabs (price_change (projr (validate_signal data symb)))) (Fin 3)
            then STRONG
            else if valid (projr (validate_signal data symb)) then MODERATE
            else WEAK)"
  using assms
  by (simp_all add: validate_signal_def Let_def isna_def MIN_PRICE_CHANGE_def)


lemma foldl_fadd_const:
  "foldl fadd (Fin a) (map (\<lambda>x. Fin k) xs) = Fin (a + real (length xs) * k)"
  by (induction xs arbitrary: a) (simp_all add: algebra_simps)

lemma stock_frame_sma:
  "SMA_short_col (stock_frame c v) ! 49 = Fin ((19000 + c) / 20)"
  "SMA_long_col (stock_frame c v) ! 49 = Fin ((49000 + c) / 50)"
proof -
  show "SMA_short_col (stock_frame c v) ! 49 = Fin ((19000 + c) / 20)"
    by (simp add: SMA_short_col_def SMA_SHORT_PERIOD_def nth_rolling_mean stock_frame_shape
        window_map comp_def)
  have "NaN \<notin> (\<lambda>x. Fin 1000) ` {0..<49::nat}" by auto
  then show "SMA_long_col (stock_frame c v) ! 49 = Fin ((49000 + c) / 50)"
    by (simp add: SMA_long_col_def SMA_LONG_PERIOD_def nth_rolling_mean stock_frame_shape
        window_map comp_def foldl_fadd_const)
qed

lemma stock_frame_recent_high:
  "Recent_High_col (stock_frame c v) ! 49 = Fin (max 1010 c)"
  by (simp add: Recent_High_col_def nth_rolling_max stock_frame_shape window_map comp_def)

lemma stock_frame_rsi:
  "1000 < c \<Longrightarrow> RSI_col (stock_frame c v) ! 49 = Fin 100"
  "RSI_col (stock_frame 1000 v) ! 49 = NaN"
proof -
  have n: "49 < length (stock_frame c v)" for c by (simp add: stock_frame_shape)
  show "1000 < c \<Longrightarrow> RSI_col (stock_frame c v) ! 49 = Fin 100"
    using n [of c] stock_frame_averages(1,2) [of c v]
    by (simp add: RSI_col_def RSI_PERIOD_def calculate_rsi_def Let_def inf_signed_def)
  show "RSI_col (stock_frame 1000 v) ! 49 = NaN"
    using n [of 1000] stock_frame_averages(1,2) [of 1000 v]
    by (simp add: RSI_col_def RSI_PERIOD_def calculate_rsi_def Let_def inf_signed_def fsub_def)
qed

lemma stock_frame_last_row:
  "last (generate_enhanced_signals (stock_frame c v)) = generate_enhanced_signals (stock_frame c v) ! 49"
  "1 < length (generate_enhanced_signals (stock_frame c v))"
  "length (generate_enhanced_signals (stock_frame c v)) - 2 = 48"
  "generate_enhanced_signals (stock_frame c v) \<noteq> []"
  "Close (generate_enhanced_signals (stock_frame c v) ! 49) = c"
  "Close (generate_enhanced_signals (stock_frame c v) ! 48) = 1000"
  "Volume (generate_enhanced_signals (stock_frame c v) ! 49) = v"
  "SMA_short (generate_enhanced_signals (stock_frame c v) ! 49) = Fin ((19000 + c) / 20)"
  "SMA_long (generate_enhanced_signals (stock_frame c v) ! 49) = Fin ((49000 + c) / 50)"
  "Recent_High (generate_enhanced_signals (stock_frame c v) ! 49) = Fin (max 1010 c)"
  "Signal (generate_enhanced_signals (stock_frame c v) ! 49) = Signal_at (stock_frame c v) 49"
proof -
  have ne: "stock_frame c v \<noteq> []" by (simp add: stock_frame_shape)
  show "last (generate_enhanced_signals (stock_frame c v)) = generate_enhanced_signals (stock_frame c v) ! 49"
    using last_generate_enhanced_signals [OF ne] by (simp add: stock_frame_shape)
  show "generate_enhanced_signals (stock_frame c v) \<noteq> []"
    using ne by (metis length_generate_enhanced_signals length_0_conv)
qed (simp_all add: nth_generate_enhanced_signals stock_frame_shape stock_frame_sma
      stock_frame_recent_high)

lemma flat_frame_hold:
  "Signal_at (stock_frame 1000 2000000) 49 = HOLD"
  by (simp add: Signal_at_def loc_set_def strong_sell_def regular_sell_def buy_condition_def
      strong_sell_multiple_def strong_sell_extreme_def strong_sell_crash_def sma_cross_confirmed_def
      sell_sma_cross_def sell_rsi_overbought_def sell_high_volume_def sell_divergence_def
      buy_sma_cross_def rsi_oversold_recovery_def strong_uptrend_def
      stock_frame_sma stock_frame_rsi stock_frame_pct stock_frame_volume_ratio
      HIGH_VOLUME_SELL_MULTIPLIER_def fgt_def)

lemma rally_frame_sell:
  "Signal_at (stock_frame 1029.96 2000000) 49 = SELL"
proof -
  have r: "RSI_col (stock_frame 1029.96 2000000) ! 49 = Fin 100"
    by (rule stock_frame_rsi(1)) simp
  show ?thesis
    using r
    by (simp add: Signal_at_def loc_set_def strong_sell_def regular_sell_def
      strong_sell_multiple_def strong_sell_extreme_def strong_sell_crash_def sma_cross_confirmed_def
      sell_sma_cross_def sell_rsi_overbought_def
      stock_frame_sma stock_frame_pct stock_frame_volume_ratio
      HIGH_VOLUME_SELL_MULTIPLIER_def RSI_OVERBOUGHT_THRESHOLD_def)
qed


lemma round_to_2_prices:
  "round_to 2 680 = 680" "round_to 2 1000 = 1000" "round_to 2 850 = 850" "round_to 2 1250 = 1250"
  "round_to 2 800 = 800" "round_to 2 1010 = 1010" "round_to 2 0 = 0"
  "round_to 2 (749 / 250) = 3"
  by (simp_all add: round_to_def round_half_even_def Let_def)

text \<open>
  Claim C7, amended.  In the short-horizon analyzer a \<open>BUY\<close> has entry = latest close,
  stop-loss = max (20-bar support) (close \<times> 0.95) and take-profit = min (20-bar resistance)
  (close \<times> 1.1); a \<open>SELL\<close> has stop-loss = min resistance (close \<times> 1.05) and take-profit =
  max support (close \<times> 0.9); \<open>HOLD\<close> and \<open>NO_DATA\<close> have all three levels 0; it never emits
  \<open>STRONG_SELL\<close>.  The long-horizon validator reports, for every direction, stop-loss =
  close \<times> (1 - 0.15) and take-profit = close \<times> (1 + 0.25), rounded to two decimals, without
  support or resistance.
\<close>
theorem risk_levels_by_engine:
  fixes now :: time and bars :: "bar list" and data :: "signal_row list" and symb :: string
  defines "s \<equiv> generate_signals now (calculate_indicators bars)"
    and "c \<equiv> close (last bars)"
    and "floor20 \<equiv> list_min (map low (tail 20 bars))"
    and "ceil20 \<equiv> list_max (map high (tail 20 bars))"
  shows "(signal s = BUY \<longrightarrow>
            entry_price s = Fin c \<and> stop_loss s = Fin (max floor20 (c * 0.95)) \<and>
            take_profit s = Fin (min ceil20 (c * 1.1))) \<and>
         (signal s = SELL \<longrightarrow>
            entry_price s = Fin c \<and> stop_loss s = Fin (min ceil20 (c * 1.05)) \<and>
            take_profit s = Fin (max floor20 (c * 0.9))) \<and>
         (signal s = HOLD \<or> signal s = NO_DATA \<longrightarrow>
            entry_price s = Fin 0 \<and> stop_loss s = Fin 0 \<and> take_profit s = Fin 0) \<and>
         signal s \<noteq> STRONG_SELL \<and>
         (data \<noteq> [] \<longrightarrow>
            (\<exists>info. validate_signal data symb = Inr info \<and>
               stop_loss_price info =
                 fround 2 (Fin (Close (last data) * (1 - STOP_LOSS_PERCENTAGE))) \<and>
               take_profit_price info =
                 fround 2 (Fin (Close (last data) * (1 + TAKE_PROFIT_PERCENTAGE)))))"
proof -
  have v: "data \<noteq> [] \<longrightarrow>
            (\<exists>info. validate_signal data symb = Inr info \<and>
               stop_loss_price info =
                 fround 2 (Fin (Close (last data) * (1 - STOP_LOSS_PERCENTAGE))) \<and>
               take_profit_price info =
                 fround 2 (Fin (Close (last data) * (1 + TAKE_PROFIT_PERCENTAGE))))"
    using validate_signal_fields(1,3,4) [of data symb] by metis
  have d: "signal s \<noteq> STRONG_SELL" unfolding s_def by (rule gs_direction)
  show ?thesis
  proof (cases "length bars < 50")
    case True
    then have "s = empty_signal now" by (simp add: s_def short_series)
    then show ?thesis using v by (simp add: empty_signal_def)
  next
    case False
    let ?df = "calculate_indicators bars"
    have len: "50 \<le> length ?df" using False by simp
    have b20: "20 \<le> length bars" using False by simp
    note sp = last_calculate_indicators(5) [OF b20]
    note rs = last_calculate_indicators(6) [OF b20]
    note cl = last_calculate_indicators(1) [OF b20]
    note lv = gs_levels [OF len sp rs, of now]
    have b: "signal s = BUY \<longrightarrow>
            entry_price s = Fin c \<and> stop_loss s = Fin (max floor20 (c * 0.95)) \<and>
            take_profit s = Fin (min ceil20 (c * 1.1))"
      using lv(1) unfolding s_def c_def floor20_def ceil20_def by (simp add: cl)
    have sl: "signal s = SELL \<longrightarrow>
            entry_price s = Fin c \<and> stop_loss s = Fin (min ceil20 (c * 1.05)) \<and>
            take_profit s = Fin (max floor20 (c * 0.9))"
      using lv(2) unfolding s_def c_def floor20_def ceil20_def by (simp add: cl)
    have h: "signal s = HOLD \<or> signal s = NO_DATA \<longrightarrow>
            entry_price s = Fin 0 \<and> stop_loss s = Fin 0 \<and> take_profit s = Fin 0"
      using lv(3) unfolding s_def by auto
    from b sl h d v show ?thesis by blast
  qed
qed

text \<open>Witness for C7 as amended: the \<open>BUY\<close> of the dip-and-jump series, and the validator on the
  crash series closing at 800.\<close>
theorem risk_levels_by_engine_witness:
  "signal (generate_signals 0 (calculate_indicators (buy_frame 102.5))) = BUY \<and>
   close (last (buy_frame 102.5)) = 102 \<and>
   list_min (map low (tail 20 (buy_frame 102.5))) = 98.5 \<and>
   list_max (map high (tail 20 (buy_frame 102.5))) = 102.5 \<and>
   entry_price (generate_signals 0 (calculate_indicators (buy_frame 102.5))) = Fin 102 \<and>
   stop_loss (generate_signals 0 (calculate_indicators (buy_frame 102.5))) = Fin (max 98.5 (102 * 0.95)) \<and>
   take_profit (generate_signals 0 (calculate_indicators (buy_frame 102.5))) = Fin (min 102.5 (102 * 1.1)) \<and>
   generate_enhanced_signals (stock_frame 800 10000000) \<noteq> [] \<and>
   (\<exists>info. validate_signal (generate_enhanced_signals (stock_frame 800 10000000)) ''BBCA.JK'' = Inr info \<and>
      stop_loss_price info = Fin 680 \<and> take_profit_price info = Fin 1000)"
  using risk_levels_by_engine [of 0 "buy_frame 102.5"
      "generate_enhanced_signals (stock_frame 800 10000000)" "''BBCA.JK''"]
  by (simp add: buy_frame_signal buy_frame_shape buy_frame_extremes jump_bar_def dip_bar_def
      stock_frame_last_row STOP_LOSS_PERCENTAGE_def TAKE_PROFIT_PERCENTAGE_def round_to_2_prices)

text \<open>
  Counterexample to C7 as stated: for the \<open>STRONG_SELL\<close> of the crash series (close 800, recent
  high 1010) the validator reports stop-loss 680 and take-profit 1000, not
  min 1010 (800 \<times> 1.15) = 920; for the \<open>HOLD\<close> of the flat series it reports 850 and 1250, not 0.
\<close>
theorem validator_levels_counterexample:
  "validate_signal (generate_enhanced_signals (stock_frame 800 10000000)) ''BBCA.JK'' =
     Inr (projr (validate_signal (generate_enhanced_signals (stock_frame 800 10000000)) ''BBCA.JK'')) \<and>
   signal' (projr (validate_signal (generate_enhanced_signals (stock_frame 800 10000000)) ''BBCA.JK'')) =
     STRONG_SELL \<and>
   current_price (projr (validate_signal (generate_enhanced_signals (stock_frame 800 10000000)) ''BBCA.JK'')) =
     Fin 800 \<and>
   recent_high (projr (validate_signal (generate_enhanced_signals (stock_frame 800 10000000)) ''BBCA.JK'')) =
     Fin 1010 \<and>
   stop_loss_price (projr (validate_signal (generate_enhanced_signals (stock_frame 800 10000000)) ''BBCA.JK'')) =
     Fin 680 \<and>
   take_profit_price (projr (validate_signal (generate_enhanced_signals (stock_frame 800 10000000)) ''BBCA.JK'')) =
     Fin 1000 \<and>
   min 1010 (800 * (1 + STOP_LOSS_PERCENTAGE)) = 920 \<and>
   signal' (projr (validate_signal (generate_enhanced_signals (stock_frame 1000 2000000)) ''BBCA.JK'')) =
     HOLD \<and>
   stop_loss_price (projr (validate_signal (generate_enhanced_signals (stock_frame 1000 2000000)) ''BBCA.JK'')) =
     Fin 850 \<and>
   take_profit_price (projr (validate_signal (generate_enhanced_signals (stock_frame 1000 2000000)) ''BBCA.JK'')) =
     Fin 1250"
proof -
  have ne: "generate_enhanced_signals (stock_frame c v) \<noteq> []" for c v
    by (rule stock_frame_last_row(4))
  have cs: "Signal_at (stock_frame 800 10000000) 49 = STRONG_SELL"
    using crash_frame_masks(1) by (simp add: Signal_at_def loc_set_def strong_sell_def)
  show ?thesis
    using validate_signal_fields(1) [OF ne, of 800 10000000 "''BBCA.JK''"]
    by (simp add: validate_signal_fields(2-6) [OF ne] stock_frame_last_row cs flat_frame_hold
        STOP_LOSS_PERCENTAGE_def TAKE_PROFIT_PERCENTAGE_def round_to_2_prices)
qed


text \<open>
  Claim C8, amended.  The validity flag holds exactly when the latest volume is at least the
  minimum volume threshold and both moving averages are defined.  The strength is
  \<open>VERY_STRONG\<close> whenever the direction is \<open>STRONG_SELL\<close>; otherwise \<open>STRONG\<close> when the signal is
  valid and the price change in percent, rounded to two decimals, has magnitude at least 3;
  \<open>MODERATE\<close> when valid otherwise; \<open>WEAK\<close> when invalid.  A \<open>NO_DATA\<close> signal of the analyzer has
  strength \<open>NONE\<close>.
\<close>
theorem validator_validity_and_strength:
  assumes "data \<noteq> []"
  shows "\<exists>info. validate_signal data symb = Inr info \<and>
           (valid info \<longleftrightarrow>
              MIN_VOLUME_THRESHOLD \<le> Volume (last data) \<and>
              SMA_short (last data) \<noteq> NaN \<and> SMA_long (last data) \<noteq> NaN) \<and>
           price_change info =
             fround 2
               (fmul (fdiv (fsub (Fin (Close (last data)))
                              (Fin (Close (if 1 < length data then data ! (length data - 2)
                                           else last data))))
                        (Fin (Close (if 1 < length data then data ! (length data - 2)
                                     else last data))))
                  (Fin 100)) \<and>
           strength' info =
             (if Signal (last data) = STRONG_SELL then VERY_STRONG
              else if valid info \<and> fge (fabs (price_change info)) (Fin 3) then STRONG
              else if valid info then MODERATE
              else WEAK) \<and>
           (signal (generate_signals now df) = NO_DATA \<longrightarrow>
              strength (generate_signals now df) = NONE)"
proof -
  have n: "signal (generate_signals now df) = NO_DATA \<longrightarrow> strength (generate_signals now df) = NONE"
    by (simp add: generate_signals_def empty_signal_def Let_def)
  note f = validate_signal_fields [OF assms, of symb]
  show ?thesis
    apply (rule exI [of _ "projr (validate_signal data symb)"])
    using f(1) f(8) f(9) f(10) n unfolding f(2) by blast
qed

text \<open>Witness for C8 as amended: the flat series is valid, unchanged on the day, and \<open>MODERATE\<close>.\<close>
theorem validator_validity_and_strength_witness:
  "generate_enhanced_signals (stock_frame 1000 2000000) \<noteq> [] \<and>
   Volume (last (generate_enhanced_signals (stock_frame 1000 2000000))) = 2000000 \<and>
   SMA_short (last (generate_enhanced_signals (stock_frame 1000 2000000))) = Fin 1000 \<and>
   SMA_long (last (generate_enhanced_signals (stock_frame 1000 2000000))) = Fin 1000 \<and>
   Signal (last (generate_enhanced_signals (stock_frame 1000 2000000))) = HOLD \<and>
   (\<exists>info. validate_signal (generate_enhanced_signals (stock_frame 1000 2000000)) ''BBCA.JK'' = Inr info \<and>
      valid info \<and> price_change info = Fin 0 \<and> strength' info = MODERATE)"
proof -
  have ne: "generate_enhanced_signals (stock_frame 1000 2000000) \<noteq> []"
    by (rule stock_frame_last_row(4))
  show ?thesis
    using ne validator_validity_and_strength [OF ne, of "''BBCA.JK''" 0 "[]"]
    by (auto simp add: stock_frame_shape stock_frame_last_row flat_frame_hold
        MIN_VOLUME_THRESHOLD_def round_to_2_prices)
qed

text \<open>
  Counterexample to C8 as stated: a valid \<open>SELL\<close> on a day that gains 2.996%, less than the
  configured 3%, is \<open>STRONG\<close> and not \<open>MODERATE\<close>, because the change is compared after rounding
  to 3.00.
\<close>
theorem rounded_change_strength_counterexample:
  "validate_signal (generate_enhanced_signals (stock_frame 1029.96 2000000)) ''BBCA.JK'' =
     Inr (projr (validate_signal (generate_enhanced_signals (stock_frame 1029.96 2000000)) ''BBCA.JK'')) \<and>
   Close (last (generate_enhanced_signals (stock_frame 1029.96 2000000))) = 1029.96 \<and>
   Close (generate_enhanced_signals (stock_frame 1029.96 2000000) ! 48) = 1000 \<and>
   \<bar>(1029.96 - 1000) / 1000 * 100 :: real\<bar> < 3 \<and>
   signal' (projr (validate_signal (generate_enhanced_signals (stock_frame 1029.96 2000000)) ''BBCA.JK'')) =
     SELL \<and>
   valid (projr (validate_signal (generate_enhanced_signals (stock_frame 1029.96 2000000)) ''BBCA.JK'')) \<and>
   price_change (projr (validate_signal (generate_enhanced_signals (stock_frame 1029.96 2000000)) ''BBCA.JK'')) =
     Fin 3 \<and>
   strength' (projr (validate_signal (generate_enhanced_signals (stock_frame 1029.96 2000000)) ''BBCA.JK'')) =
     STRONG"
proof -
  have ne: "generate_enhanced_signals (stock_frame c v) \<noteq> []" for c v
    by (rule stock_frame_last_row(4))
  show ?thesis
    using validate_signal_fields(1) [OF ne, of "1029.96" 2000000 "''BBCA.JK''"] rally_frame_sell
    by (simp add: validate_signal_fields(2,8,9,10) [OF ne] stock_frame_shape stock_frame_last_row
        MIN_VOLUME_THRESHOLD_def round_to_2_prices)
qed

end
